theory Spec2Isabelle
  imports Main "HOL-Library.AList"
begin

section \<open>Text primitives used by the Python sources\<close>

text \<open>
  Query text and model output are Python \<open>str\<close> values. They are modelled as
  \<open>string\<close> with one \<open>char\<close> per code point, restricted to the code points 0 to 255.
  On that range the character classes below are those of Python's \<open>str\<close> methods and of
  the \<open>re\<close> module for \<open>str\<close> patterns:
  \<open>str.isspace\<close>, \<open>str.strip\<close> and \<open>\s\<close> take the code points 9-13, 28-32, 133 and 160
  as whitespace; \<open>\w\<close> is an alphanumeric character or the underscore, which besides the
  ASCII letters and digits covers 170, 178, 179, 181, 185, 186, 188-190, 192-214, 216-246
  and 248-255.
\<close>

definition is_space :: "char \<Rightarrow> bool" where
  "is_space c = (let n = (of_char c :: int) in
     (9 \<le> n \<and> n \<le> 13) \<or> (28 \<le> n \<and> n \<le> 32) \<or> n = 133 \<or> n = 160)"

definition is_word :: "char \<Rightarrow> bool" where
  "is_word c = (let n = (of_char c :: int) in
     (48 \<le> n \<and> n \<le> 57) \<or> (65 \<le> n \<and> n \<le> 90) \<or> n = 95 \<or> (97 \<le> n \<and> n \<le> 122) \<or>
     n = 170 \<or> n = 178 \<or> n = 179 \<or> n = 181 \<or> n = 185 \<or> n = 186 \<or>
     (188 \<le> n \<and> n \<le> 190) \<or> (192 \<le> n \<and> n \<le> 214) \<or> (216 \<le> n \<and> n \<le> 246) \<or>
     (248 \<le> n \<and> n \<le> 255))"

text \<open>
  \<open>upper_letter\<close> is the comparison key of \<open>re.IGNORECASE\<close> for an ASCII letter of a
  pattern: a character \<open>c\<close> of the range matches the letter \<open>L\<close> exactly when it is \<open>L\<close>
  in upper or lower case, that is when \<open>upper_letter c = L\<close> for the upper-case \<open>L\<close>.
\<close>

definition upper_letter :: "char \<Rightarrow> char" where
  "upper_letter c = (let n = (of_char c :: int) in
     if 97 \<le> n \<and> n \<le> 122 then char_of (n - 32) else c)"

text \<open>
  \<open>str.upper()\<close> and \<open>str.lower()\<close>. Upper-casing maps a-z and the lower-case letters
  224-246 and 248-254 to the character 32 below, and 223 (sharp s) to the two characters
  \<open>SS\<close>, so the result can be longer than the text. The images of 181 and 255 lie
  outside the range (U+039C, U+0178); the model keeps these two characters, which agree
  with their images in all that the sources test of an upper-cased text: neither is equal
  to an ASCII character, both are word characters. Lower-casing maps A-Z, 192-214 and
  216-222 to the character 32 above.
\<close>

definition upper_chars :: "char \<Rightarrow> string" where
  "upper_chars c = (let n = (of_char c :: int) in
     if (97 \<le> n \<and> n \<le> 122) \<or> (224 \<le> n \<and> n \<le> 246) \<or> (248 \<le> n \<and> n \<le> 254)
     then [char_of (n - 32)]
     else if n = 223 then ''SS'' else [c])"

definition lower_char :: "char \<Rightarrow> char" where
  "lower_char c = (let n = (of_char c :: int) in
     if (65 \<le> n \<and> n \<le> 90) \<or> (192 \<le> n \<and> n \<le> 214) \<or> (216 \<le> n \<and> n \<le> 222)
     then char_of (n + 32) else c)"

definition upper :: "string \<Rightarrow> string" where
  "upper s = concat (map upper_chars s)"

definition lower :: "string \<Rightarrow> string" where
  "lower s = map lower_char s"

text \<open>\<open>str.strip()\<close>: the text without its leading and trailing whitespace.\<close>

definition strip :: "string \<Rightarrow> string" where
  "strip s = rev (dropWhile is_space (rev (dropWhile is_space s)))"

text \<open>
  Building blocks of the regular expressions the sources use.
  \<open>lit_ci l s\<close>: the upper-case literal \<open>l\<close> matches at the start of \<open>s\<close> under
  \<open>re.IGNORECASE\<close>. \<open>lit l s\<close>: the same, case-sensitively.
  \<open>word_boundary p n\<close>: the anchor \<open>\b\<close> between the characters \<open>p\<close> and \<open>n\<close>
  (\<open>None\<close> at either end of the text).
  \<open>re_search m s\<close>: \<open>re.search\<close>, with \<open>m prev rest\<close> deciding whether the
  pattern matches at the position whose preceding character is \<open>prev\<close> and whose
  remaining text is \<open>rest\<close>.
\<close>

fun lit_ci :: "string \<Rightarrow> string \<Rightarrow> bool" where
  "lit_ci [] s = True"
| "lit_ci (l # ls) [] = False"
| "lit_ci (l # ls) (c # cs) = (if upper_letter c = l then lit_ci ls cs else False)"

fun lit :: "string \<Rightarrow> string \<Rightarrow> bool" where
  "lit [] s = True"
| "lit (l # ls) [] = False"
| "lit (l # ls) (c # cs) = (if c = l then lit ls cs else False)"

definition head_opt :: "string \<Rightarrow> char option" where
  "head_opt s = (case s of [] \<Rightarrow> None | c # _ \<Rightarrow> Some c)"

definition is_word_opt :: "char option \<Rightarrow> bool" where
  "is_word_opt p = (case p of None \<Rightarrow> False | Some c \<Rightarrow> is_word c)"

definition word_boundary :: "char option \<Rightarrow> char option \<Rightarrow> bool" where
  "word_boundary p n = (is_word_opt p \<noteq> is_word_opt n)"

fun re_search :: "(char option \<Rightarrow> string \<Rightarrow> bool) \<Rightarrow> char option \<Rightarrow> string \<Rightarrow> bool" where
  "re_search m prev [] = m prev []"
| "re_search m prev (c # cs) = (m prev (c # cs) \<or> re_search m (Some c) cs)"

section \<open>Query Safety Filter (utilities/sql_validator.py)\<close>

text \<open>
  \<open>ALLOWED_TABLES\<close> and \<open>DANGEROUS_KEYWORDS\<close> are Python sets. The keyword set is
  iterated by \<open>validate_query\<close>, and Python leaves the iteration order of a set open:
  the order is a parameter of \<open>validate_query_in\<close> below, and the list
  \<open>DANGEROUS_KEYWORDS\<close> gives the order in which the source writes the set.
\<close>

definition ALLOWED_TABLES :: "string list" where
  "ALLOWED_TABLES = [''products'', ''ingredients'', ''product_ingredients'', ''companies'',
     ''brands'', ''categories'', ''cosmetics'', ''chemicals'']"

definition DANGEROUS_KEYWORDS :: "string list" where
  "DANGEROUS_KEYWORDS = [''DROP'', ''DELETE'', ''TRUNCATE'', ''ALTER'',
     ''INSERT'', ''UPDATE'', ''EXEC'', ''EXECUTE'', ''CREATE'', ''GRANT'', ''REVOKE'']"

text \<open>
  The injection patterns of \<open>validate_query\<close>, in the order of its list:
  quote then semicolon, \<open>--\<close> comment up to a newline, \<open>/*\<close>, \<open>xp_\<close>, \<open>sp_\<close>,
  and \<open>UNION\s+SELECT\<close>.
\<close>

datatype injection_pattern =
  QuoteSemicolon | DashComment | BlockComment | XpPrefix | SpPrefix | UnionSelect

definition injection_patterns :: "injection_pattern list" where
  "injection_patterns = [QuoteSemicolon, DashComment, BlockComment, XpPrefix, SpPrefix, UnionSelect]"

text \<open>
  The error messages of \<open>validate_query\<close>, one constructor per message:
  "Query must be a non-empty string",
  "Only SELECT queries are allowed (read-only operations)",
  "Dangerous SQL keyword '...' detected - not allowed",
  "Potential SQL injection detected - pattern: ...",
  "Access to table '...' is not allowed",
  "Query exceeds maximum length (5000 characters)".
\<close>

datatype rejection =
  NonEmptyRequired
| OnlySelectAllowed
| DangerousKeyword string
| InjectionDetected injection_pattern
| TableNotAllowed string
| TooLong

text \<open>\<open>re.match(r'^\s*SELECT\b', query, re.IGNORECASE)\<close>\<close>

definition match_select :: "string \<Rightarrow> bool" where
  "match_select s =
     (let r = dropWhile is_space s in
      lit_ci ''SELECT'' r \<and> word_boundary (Some CHR ''T'') (head_opt (drop 6 r)))"

text \<open>\<open>re.search(rf'\b{keyword}\b', upper_query)\<close>\<close>

definition keyword_at :: "string \<Rightarrow> char option \<Rightarrow> string \<Rightarrow> bool" where
  "keyword_at keyword prev s =
     (word_boundary prev (head_opt s) \<and> lit keyword s \<and>
      word_boundary (Some (last keyword)) (head_opt (drop (length keyword) s)))"

definition search_keyword :: "string \<Rightarrow> string \<Rightarrow> bool" where
  "search_keyword keyword s = re_search (keyword_at keyword) None s"

text \<open>\<open>re.search(pattern, query, re.IGNORECASE)\<close> for each injection pattern.\<close>

fun injection_at :: "injection_pattern \<Rightarrow> char option \<Rightarrow> string \<Rightarrow> bool" where
  "injection_at QuoteSemicolon prev s =
     (case s of [] \<Rightarrow> False
      | c # cs \<Rightarrow> (c = CHR 0x27 \<or> c = CHR 0x22) \<and> lit '';'' (dropWhile is_space cs))"
| "injection_at DashComment prev s =
     (lit ''--'' s \<and> CHR 0x0A \<in> set (takeWhile is_space (drop 2 s)))"
| "injection_at BlockComment prev s = lit ''/*'' s"
| "injection_at XpPrefix prev s = lit_ci ''XP_'' s"
| "injection_at SpPrefix prev s = lit_ci ''SP_'' s"
| "injection_at UnionSelect prev s =
     (lit_ci ''UNION'' s \<and> takeWhile is_space (drop 5 s) \<noteq> [] \<and>
      lit_ci ''SELECT'' (dropWhile is_space (drop 5 s)))"

definition search_injection :: "injection_pattern \<Rightarrow> string \<Rightarrow> bool" where
  "search_injection p s = re_search (injection_at p) None s"

text \<open>
  \<open>re.findall(r'\bFROM\s+(\w+)', query, re.IGNORECASE)\<close>: the captured names of all
  matches, found left to right without overlap. \<open>from_at\<close> gives the captured name and
  the length of the match at one position; \<open>findall_from\<close> scans the text, \<open>skip\<close>
  counting the characters that still belong to the previous match.
\<close>

definition from_at :: "char option \<Rightarrow> string \<Rightarrow> (string \<times> nat) option" where
  "from_at prev s =
     (let r = drop 4 s;
          ws = takeWhile is_space r;
          name = takeWhile is_word (dropWhile is_space r)
      in if word_boundary prev (head_opt s) \<and> lit_ci ''FROM'' s \<and> ws \<noteq> [] \<and> name \<noteq> []
         then Some (name, 4 + length ws + length name) else None)"

fun findall_from :: "char option \<Rightarrow> nat \<Rightarrow> string \<Rightarrow> string list" where
  "findall_from prev skip [] = []"
| "findall_from prev skip (c # cs) =
     (if 0 < skip then findall_from (Some c) (skip - 1) cs
      else case from_at prev (c # cs) of
             None \<Rightarrow> findall_from (Some c) 0 cs
           | Some (name, n) \<Rightarrow> name # findall_from (Some c) (n - 1) cs)"


text \<open>
  \<open>SQLValidator.validate_query\<close>. The result is the source's pair
  \<open>(is_valid, error_message)\<close>. The rules run in the source's order and the first
  failing rule returns. \<open>validate_query_in keywords\<close> is the function when the keyword
  set is iterated in the order \<open>keywords\<close>; \<open>validate_query\<close> takes the order of the
  source text. The order decides nothing but which keyword a keyword rejection names
  (lemma \<open>validate_query_any_order\<close>).
\<close>

definition validate_query_in :: "string list \<Rightarrow> string \<Rightarrow> bool \<times> rejection option" where
  "validate_query_in keywords sql_query =
     (if sql_query = [] then (False, Some NonEmptyRequired)
      else
        let query = strip sql_query in
        if \<not> match_select query then (False, Some OnlySelectAllowed)
        else
          let upper_query = upper query in
          case find (\<lambda>keyword. search_keyword keyword upper_query) keywords of
            Some keyword \<Rightarrow> (False, Some (DangerousKeyword keyword))
          | None \<Rightarrow>
             (case find (\<lambda>pattern. search_injection pattern query) injection_patterns of
                Some pattern \<Rightarrow> (False, Some (InjectionDetected pattern))
              | None \<Rightarrow>
                 (case find (\<lambda>table. \<not> List.member ALLOWED_TABLES (lower table))
                         (findall_from None 0 query) of
                    Some table \<Rightarrow> (False, Some (TableNotAllowed table))
                  | None \<Rightarrow>
                     if 5000 < length query then (False, Some TooLong)
                     else (True, None))))"

definition validate_query :: "string \<Rightarrow> bool \<times> rejection option" where
  "validate_query sql_query = validate_query_in DANGEROUS_KEYWORDS sql_query"

text \<open>\<open>validate_sql_before_execution\<close>: the module's entry point.\<close>

definition validate_sql_before_execution :: "string \<Rightarrow> bool \<times> rejection option" where
  "validate_sql_before_execution sql_query = validate_query sql_query"

section \<open>Python values, exceptions and data frames\<close>

text \<open>
  An exception is a value. \<open>ExternalFailure\<close> is any exception raised by an external
  collaborator (text generator, tabular store, vector index), with its message.
\<close>

datatype error =
  TypeError | KeyError | ValueError | AttributeError | ExternalFailure string

text \<open>
  What \<open>json.loads\<close> returns (numbers are kept as integers; a float behaves like an
  integer in every operation used here). A dict is an association list in insertion
  order with distinct keys.
\<close>

datatype json =
  JNull | JBool bool | JNum int | JStr string | JArr "json list" | JObj "(string \<times> json) list"

text \<open>
  A scalar of a result row or of a metadata mapping: \<open>None\<close>, a bool, an integer, a
  string, or any other scalar (a float, a NumPy value, bytes), which is given by its
  truth value and its \<open>str()\<close> text.
\<close>

datatype cell = CNone | CBool bool | CInt int | CStr string | COther bool string

text \<open>\<open>str(n)\<close> for integers, \<open>str(v)\<close> and truthiness for scalars.\<close>

definition digit_char :: "nat \<Rightarrow> char" where
  "digit_char d = ''0123456789'' ! d"

fun str_nat :: "nat \<Rightarrow> string" where
  "str_nat n = (if n < 10 then [digit_char n] else str_nat (n div 10) @ [digit_char (n mod 10)])"

declare str_nat.simps [simp del]

definition str_int :: "int \<Rightarrow> string" where
  "str_int i = (if i < 0 then CHR ''-'' # str_nat (nat (- i)) else str_nat (nat i))"

fun py_str :: "cell \<Rightarrow> string" where
  "py_str CNone = ''None''"
| "py_str (CBool b) = (if b then ''True'' else ''False'')"
| "py_str (CInt i) = str_int i"
| "py_str (CStr s) = s"
| "py_str (COther b s) = s"

fun py_truthy :: "cell \<Rightarrow> bool" where
  "py_truthy CNone = False"
| "py_truthy (CBool b) = b"
| "py_truthy (CInt i) = (i \<noteq> 0)"
| "py_truthy (CStr s) = (s \<noteq> [])"
| "py_truthy (COther b s) = b"

text \<open>
  A pandas DataFrame: column labels, index labels and the rows. \<open>DataFrame\<close> is the
  constructor from rows and column names (default index \<open>0, 1, ...\<close>), \<open>head\<close> is
  \<open>df.head(n)\<close> (for negative \<open>n\<close>: all rows but the last \<open>-n\<close>), \<open>insert_column\<close>
  is \<open>df.insert(0, name, values)\<close>, which raises when the column exists, and
  \<open>iterrows\<close> pairs each index label with its row as a labelled series.

  The constructor infers a type for each column and stores the cells in that type: an
  integer column with a \<open>None\<close> becomes a float column, whose cells read \<open>1.0\<close> and
  \<open>nan\<close>. This conversion is the parameter \<open>conv\<close>: \<open>conv col c\<close> is the value
  stored for the cell \<open>c\<close> of a column with the cells \<open>col\<close>. A column of strings
  only is stored as it is. (A row that \<open>iterrows\<close> yields keeps the stored values
  whenever the frame has a string column, as every frame iterated here has in
  \<open>citation_id\<close>.)
\<close>

record frame =
  columns :: "string list"
  index :: "nat list"
  data :: "cell list list"

definition empty_frame :: frame where
  "empty_frame = \<lparr>columns = [], index = [], data = []\<rparr>"

definition len :: "frame \<Rightarrow> nat" where
  "len df = length (data df)"

fun is_text :: "cell \<Rightarrow> bool" where
  "is_text (CStr s) = True"
| "is_text c = False"

definition column :: "nat \<Rightarrow> cell list list \<Rightarrow> cell list" where
  "column j rows = concat (map (\<lambda>row. take 1 (drop j row)) rows)"

definition store_cells :: "(cell list \<Rightarrow> cell \<Rightarrow> cell) \<Rightarrow> cell list list \<Rightarrow> cell list list" where
  "store_cells conv rows =
     map (\<lambda>row. map (\<lambda>(j, c). if list_all is_text (column j rows) then c
                               else conv (column j rows) c)
                    (enumerate 0 row)) rows"

definition DataFrame ::
  "(cell list \<Rightarrow> cell \<Rightarrow> cell) \<Rightarrow> cell list list \<Rightarrow> string list \<Rightarrow> error + frame" where
  "DataFrame conv results cols =
     (if list_all (\<lambda>row. length row = length cols) results
      then Inr \<lparr>columns = cols, index = [0..<length results],
                data = store_cells conv results\<rparr>
      else Inl ValueError)"

definition head :: "frame \<Rightarrow> int \<Rightarrow> frame" where
  "head df n =
     (let k = (if 0 \<le> n then nat n else length (data df) - nat (- n))
      in df\<lparr>index := take k (index df), data := take k (data df)\<rparr>)"

definition insert_column :: "frame \<Rightarrow> string \<Rightarrow> cell list \<Rightarrow> error + frame" where
  "insert_column df name vals =
     (if List.member (columns df) name then Inl ValueError
      else Inr (df\<lparr>columns := name # columns df, data := map2 (#) vals (data df)\<rparr>))"

definition iterrows :: "frame \<Rightarrow> (nat \<times> (string \<times> cell) list) list" where
  "iterrows df = zip (index df) (map (zip (columns df)) (data df))"

text \<open>\<open>row.to_dict()\<close>: a later duplicate label overwrites the value of the first.\<close>

definition to_dict :: "(string \<times> cell) list \<Rightarrow> (string \<times> cell) list" where
  "to_dict row = fold (\<lambda>(k, v). AList.update k v) row []"

section \<open>External collaborators\<close>

text \<open>
  The text generator, the JSON decoding of its reply, the tabular store and the vector
  index are parameters of the model. Each text-generation oracle stands for one system
  prompt; it is given the values its user prompt is built from, so the prompt layout
  (hint text, table rendering) is part of the oracle. \<open>decode_intent\<close> is lines 33-38
  of \<open>intent_agent\<close>: strip, search for a brace-delimited object, \<open>json.loads\<close>.
  \<open>db_execute\<close> is \<open>cursor.execute\<close> followed by \<open>fetchall\<close> and \<open>description\<close>
  (\<open>None\<close> for a statement that returns no rows). \<open>vector_query\<close> is the embedding
  of the question followed by the index query for \<open>top_k\<close> neighbours.
  \<open>stored_cell\<close> is the column type inference of the data frame library, the
  parameter \<open>conv\<close> of \<open>DataFrame\<close>.
  The \<open>stream\<close> flag only selects how a reply is delivered (collected from fragments
  or returned whole); the oracles do not depend on it. The \<open>score\<close> of a match is
  the text its \<open>.4f\<close> formatting gives.
\<close>

record vmatch =
  score :: string
  metadata :: "(string \<times> cell) list"

record env =
  llm_intent :: "string \<Rightarrow> error + string"
  decode_intent :: "string \<Rightarrow> error + json"
  llm_sql :: "string \<Rightarrow> json \<Rightarrow> error + string"
  db_execute :: "string \<Rightarrow> error + (string list option \<times> cell list list)"
  vector_query :: "string \<Rightarrow> int \<Rightarrow> error + vmatch list"
  llm_response :: "string \<Rightarrow> frame option \<Rightarrow> frame option \<Rightarrow> error + string"
  stored_cell :: "cell list \<Rightarrow> cell \<Rightarrow> cell"

text \<open>The external calls a run makes, in the order it makes them.\<close>

datatype prompt = INTENT_AGENT_PROMPT | SQL_AGENT_PROMPT | RESPONSE_GENERATOR_PROMPT

datatype event = TextGeneration prompt | StoreExecute string | VectorQuery int


section \<open>Structured Query Generator (agents/sql_agent.py)\<close>

text \<open>
  \<open>remove_sub old skip s\<close> is \<open>s.replace(old, '')\<close> for a non-empty \<open>old\<close> (start with
  \<open>skip = 0\<close>; \<open>skip\<close> counts the characters of an occurrence still to be dropped), and
  \<open>find_sub sub s\<close> is \<open>s.find(sub)\<close>, with \<open>None\<close> for -1.
\<close>

fun remove_sub :: "string \<Rightarrow> nat \<Rightarrow> string \<Rightarrow> string" where
  "remove_sub old skip [] = []"
| "remove_sub old skip (c # cs) =
     (if 0 < skip then remove_sub old (skip - 1) cs
      else if lit old (c # cs) then remove_sub old (length old - 1) cs
      else c # remove_sub old 0 cs)"

fun find_sub :: "string \<Rightarrow> string \<Rightarrow> nat option" where
  "find_sub sub [] = (if sub = [] then Some 0 else None)"
| "find_sub sub (c # cs) =
     (if lit sub (c # cs) then Some 0 else map_option Suc (find_sub sub cs))"

text \<open>
  The extraction of the query from the model's reply: strip, drop code fences, keep the
  text from the first SELECT (in any case) on, and cut after the first semicolon.
  A reply without SELECT is returned as it is.
\<close>

definition extract_sql :: "string \<Rightarrow> string" where
  "extract_sql response =
     (let sql_query = strip response;
          sql_query = strip (remove_sub ''```'' 0 (remove_sub ''```'' 0
                        (remove_sub ''```sql'' 0 sql_query)))
      in case find_sub ''SELECT'' (upper sql_query) of
           None \<Rightarrow> sql_query
         | Some start_idx \<Rightarrow>
            (let sql_query = drop start_idx sql_query
             in case find_sub '';'' sql_query of
                  None \<Rightarrow> sql_query
                | Some i \<Rightarrow> take (i + 1) sql_query))"

definition sql_agent :: "env \<Rightarrow> string \<Rightarrow> json \<Rightarrow> event list \<times> (error + string)" where
  "sql_agent env user_question context =
     ([TextGeneration SQL_AGENT_PROMPT],
      case llm_sql env user_question context of
        Inl e \<Rightarrow> Inl e
      | Inr response \<Rightarrow> Inr (extract_sql response))"

section \<open>Semantic Retriever (utilities/vector_search.py, agents/semantic_agent.py)\<close>

definition MAX_SQL_RESULTS :: int where
  "MAX_SQL_RESULTS = 6"

definition MAX_SEMANTIC_RESULTS :: int where
  "MAX_SEMANTIC_RESULTS = 5"

text \<open>
  An entry of the \<open>sources\<close> lists: citation id, row index and the record it refers to.
\<close>

datatype source =
  SqlSource string nat "(string \<times> cell) list"
| SemanticSource string nat vmatch

definition meta_get :: "(string \<times> cell) list \<Rightarrow> string \<Rightarrow> cell \<Rightarrow> cell" where
  "meta_get meta key dflt = (case map_of meta key of None \<Rightarrow> dflt | Some v \<Rightarrow> v)"

definition result_row :: "nat \<Rightarrow> vmatch \<Rightarrow> (string \<times> cell) list" where
  "result_row i m =
     (let meta = metadata m; na = CStr ''N/A'' in
      [(''citation_id'', CStr (''sem-'' @ str_nat i)),
       (''Rank'', CInt (int i)),
       (''Score'', CStr (score m)),
       (''Product'', meta_get meta ''product_name'' na),
       (''Chemical'', meta_get meta ''chemical_name'' na),
       (''CAS Number'', meta_get meta ''cas_number'' na),
       (''Brand'', meta_get meta ''brand_name'' na),
       (''Company'', meta_get meta ''company_name'' na),
       (''Category'', meta_get meta ''sub_category'' (meta_get meta ''primary_category'' na)),
       (''Status'', if py_truthy (meta_get meta ''is_discontinued'' CNone)
                    then CStr ''Discontinued'' else CStr ''Active''),
       (''CDPH ID'', meta_get meta ''cdph_id'' na)])"

text \<open>\<open>pd.DataFrame(results_data)\<close> for a list of dicts with the same keys.\<close>

definition frame_of_rows ::
  "(cell list \<Rightarrow> cell \<Rightarrow> cell) \<Rightarrow> (string \<times> cell) list list \<Rightarrow> frame" where
  "frame_of_rows conv rows =
     (case rows of
        [] \<Rightarrow> empty_frame
      | r # _ \<Rightarrow> \<lparr>columns = map fst r, index = [0..<length rows],
                  data = store_cells conv (map (map snd) rows)\<rparr>)"

definition semantic_search :: "env \<Rightarrow> string \<Rightarrow> int \<Rightarrow> error + (frame \<times> source list)" where
  "semantic_search env query_text top_k =
     (case vector_query env query_text top_k of
        Inl e \<Rightarrow> Inl e
      | Inr matches \<Rightarrow>
         Inr (frame_of_rows (stored_cell env)
                (map (\<lambda>(i, m). result_row i m) (enumerate 1 matches)),
              map (\<lambda>(i, m). SemanticSource (''sem-'' @ str_nat i) i m) (enumerate 1 matches)))"

text \<open>
  \<open>semantic_agent\<close> as the workflow calls it, with \<open>sql_filter=None\<close>: the plain search.
\<close>

definition semantic_agent :: "env \<Rightarrow> string \<Rightarrow> int \<Rightarrow> error + (frame \<times> source list)" where
  "semantic_agent env query_text top_k = semantic_search env query_text top_k"


section \<open>Citation Indexer and Answer Synthesizer (agents/response_generator.py)\<close>

text \<open>
  \<open>cite\<close> is a value of \<open>citation_map\<close>, \<open>citation\<close> an entry of the returned
  citation list, whose \<open>row_data\<close> holds \<open>str(v)\<close> of every value. The map is a Python
  dict keyed by the citation id: an association list in insertion order, in which storing
  under an existing key overwrites the value in place.
\<close>

record cite =
  c_type :: string
  c_row_index :: nat
  c_row_data :: "(string \<times> cell) list"
  c_citation_number :: nat

record citation =
  citation_id :: cell
  ctype :: string
  row_index :: nat
  citation_number :: nat
  row_data :: "(string \<times> string) list"

record results =
  r_sql :: "frame option"
  r_semantic :: "frame option"

definition NOT_FOUND_MESSAGE :: string where
  "NOT_FOUND_MESSAGE = ''No products or data found matching your criteria. Try rephrasing your question or using different search terms.''"

text \<open>One iteration of each of the two loops over \<open>df.iterrows()\<close>.\<close>

definition add_sql ::
  "nat \<times> (string \<times> cell) list \<Rightarrow> (cell \<times> cite) list \<times> nat \<Rightarrow> (cell \<times> cite) list \<times> nat" where
  "add_sql ir acc =
     (case (ir, acc) of ((idx, row), (citation_map, citation_counter)) \<Rightarrow>
        (AList.update (CStr (''sql-'' @ str_nat (idx + 1)))
           \<lparr>c_type = ''sql'', c_row_index = idx + 1, c_row_data = to_dict row,
            c_citation_number = citation_counter\<rparr> citation_map,
         citation_counter + 1))"

definition add_semantic ::
  "nat \<times> (string \<times> cell) list \<Rightarrow> (cell \<times> cite) list \<times> nat \<Rightarrow> (cell \<times> cite) list \<times> nat" where
  "add_semantic ir acc =
     (case (ir, acc) of ((idx, row), (citation_map, citation_counter)) \<Rightarrow>
        (AList.update
           (case map_of row ''citation_id'' of
              Some cid \<Rightarrow> cid
            | None \<Rightarrow> CStr (''sem-'' @ str_nat (idx + 1)))
           \<lparr>c_type = ''semantic'', c_row_index = idx + 1, c_row_data = to_dict row,
            c_citation_number = citation_counter\<rparr> citation_map,
         citation_counter + 1))"

text \<open>
  The citation table: the structured rows first, then the semantic rows, each result set
  only when it is present and not empty. The counter starts at 1.
\<close>

definition build_citation_map :: "results \<Rightarrow> (cell \<times> cite) list" where
  "build_citation_map res =
     (let acc = ([], 1);
          acc = (case r_sql res of
                   None \<Rightarrow> acc
                 | Some df \<Rightarrow> if 0 < len df then fold add_sql (iterrows df) acc else acc);
          acc = (case r_semantic res of
                   None \<Rightarrow> acc
                 | Some df \<Rightarrow> if 0 < len df then fold add_semantic (iterrows df) acc else acc)
      in fst acc)"

definition citation_list :: "(cell \<times> cite) list \<Rightarrow> citation list" where
  "citation_list citation_map =
     map (\<lambda>(cid, d).
            \<lparr>citation_id = cid, ctype = c_type d, row_index = c_row_index d,
             citation_number = c_citation_number d,
             row_data = map (\<lambda>(k, v). (k, py_str v)) (c_row_data d)\<rparr>) citation_map"

text \<open>A result set takes part in the answer when it is there and has a row.\<close>

definition present :: "frame option \<Rightarrow> frame option" where
  "present r = (case r of None \<Rightarrow> None | Some df \<Rightarrow> if 0 < len df then Some df else None)"

text \<open>The records of a result set, in order; none when the set is absent.\<close>

definition rows_of :: "frame option \<Rightarrow> (nat \<times> (string \<times> cell) list) list" where
  "rows_of r = (case r of None \<Rightarrow> [] | Some df \<Rightarrow> iterrows df)"

definition is_empty_result :: "frame option \<Rightarrow> bool" where
  "is_empty_result r = (case r of None \<Rightarrow> True | Some df \<Rightarrow> len df = 0)"

definition response_generator ::
  "env \<Rightarrow> string \<Rightarrow> results \<Rightarrow> event list \<times> (error + string \<times> citation list)" where
  "response_generator env user_question res =
     (let citation_map = build_citation_map res in
      if length citation_map = 0 then ([], Inr (NOT_FOUND_MESSAGE, []))
      else
        ([TextGeneration RESPONSE_GENERATOR_PROMPT],
         case llm_response env user_question (present (r_sql res)) (present (r_semantic res)) of
           Inl e \<Rightarrow> Inl e
         | Inr response \<Rightarrow> Inr (response, citation_list citation_map)))"

section \<open>Intent Classifier (agents/intent_agent.py)\<close>

text \<open>
  The operators \<open>key in v\<close>, \<open>v[key] = x\<close> and \<open>v[key]\<close> with a string key, on
  whatever \<open>json.loads\<close> returned: membership is a key test on a dict, an element test on
  a list and a substring test on a string, and raises on the other values; item
  assignment and subscription with a string work on a dict only.
\<close>

definition contains_sub :: "string \<Rightarrow> string \<Rightarrow> bool" where
  "contains_sub sub s = re_search (\<lambda>prev rest. lit sub rest) None s"

fun py_contains :: "string \<Rightarrow> json \<Rightarrow> error + bool" where
  "py_contains key (JObj d) = Inr (List.member (map fst d) key)"
| "py_contains key (JArr xs) = Inr (List.member xs (JStr key))"
| "py_contains key (JStr s) = Inr (contains_sub key s)"
| "py_contains key v = Inl TypeError"

fun py_setitem :: "json \<Rightarrow> string \<Rightarrow> json \<Rightarrow> error + json" where
  "py_setitem (JObj d) key x = Inr (JObj (AList.update key x d))"
| "py_setitem v key x = Inl TypeError"

fun py_getitem :: "json \<Rightarrow> string \<Rightarrow> error + json" where
  "py_getitem (JObj d) key = (case map_of d key of None \<Rightarrow> Inl KeyError | Some x \<Rightarrow> Inr x)"
| "py_getitem v key = Inl TypeError"

text \<open>\<open>isinstance(v, dict)\<close>\<close>

fun is_dict :: "json \<Rightarrow> bool" where
  "is_dict (JObj d) = True"
| "is_dict v = False"

text \<open>\<open>any(word in user_question.lower() for word in words)\<close>\<close>

definition any_word :: "string list \<Rightarrow> string \<Rightarrow> bool" where
  "any_word ws user_question = list_ex (\<lambda>word. contains_sub word (lower user_question)) ws"

text \<open>
  \<open>setdefault_field\<close> is one "if key not in intent_data: intent_data[key] = x" step.
  \<open>ensure_fields\<close> is lines 41-52: the three steps on the decoded value.
  \<open>fallback_intent\<close> is the \<open>except\<close> branch, reached from any exception of the body.
\<close>

definition setdefault_field :: "string \<Rightarrow> json \<Rightarrow> json \<Rightarrow> error + json" where
  "setdefault_field key x intent_data =
     (case py_contains key intent_data of
        Inl e \<Rightarrow> Inl e
      | Inr True \<Rightarrow> Inr intent_data
      | Inr False \<Rightarrow> py_setitem intent_data key x)"

definition ensure_fields :: "string \<Rightarrow> json \<Rightarrow> error + json" where
  "ensure_fields user_question intent_data =
     (case setdefault_field ''query_type''
             (if any_word [''how many'', ''count'', ''total'', ''top'', ''most''] user_question
              then JStr ''STRUCTURED'' else JStr ''SEMANTIC'') intent_data of
        Inl e \<Rightarrow> Inl e
      | Inr intent_data \<Rightarrow>
         (case setdefault_field ''entities'' (JObj []) intent_data of
            Inl e \<Rightarrow> Inl e
          | Inr intent_data \<Rightarrow> setdefault_field ''intent'' (JStr user_question) intent_data))"

definition fallback_intent :: "string \<Rightarrow> json" where
  "fallback_intent user_question =
     JObj [(''intent'', JStr user_question), (''entities'', JObj []),
           (''query_type'',
            if any_word [''how many'', ''count'', ''total'', ''top''] user_question
            then JStr ''STRUCTURED'' else JStr ''SEMANTIC'')]"

definition intent_agent :: "env \<Rightarrow> string \<Rightarrow> event list \<times> json" where
  "intent_agent env user_question =
     ([TextGeneration INTENT_AGENT_PROMPT],
      case llm_intent env user_question of
        Inl e \<Rightarrow> fallback_intent user_question
      | Inr response \<Rightarrow>
         (case decode_intent env response of
            Inl e \<Rightarrow> fallback_intent user_question
          | Inr intent_data \<Rightarrow>
             (case ensure_fields user_question intent_data of
                Inl e \<Rightarrow> fallback_intent user_question
              | Inr intent_data \<Rightarrow> intent_data)))"


section \<open>Orchestrator (agents/workflow.py)\<close>

text \<open>
  The diagnostic messages a node appends to \<open>state["messages"]\<close>, one constructor per
  message text: "Intent analyzed: ...", "SQL executed: n results", "SQL error: ...",
  "Semantic search: n results", "Semantic error: ...".
\<close>

datatype message =
  IntentAnalyzed json
| SqlExecuted nat
| SqlError error
| SemanticSearched nat
| SemanticError error

record agent_state =
  user_question :: string
  intent_analysis :: json
  sql_results :: "frame option"
  semantic_results :: "frame option"
  sql_sources :: "source list"
  semantic_sources :: "source list"
  sql_query :: "string option"
  final_response :: string
  citations :: "citation list"
  explanation :: "(json \<times> message list) option"
  messages :: "message list"
  stream :: bool
  limit_results :: int

text \<open>
  \<open>intent_node\<close>. Reading \<open>intent_analysis['query_type']\<close> and slicing
  \<open>intent_analysis['reasoning'][:100]\<close> are outside any \<open>try\<close>: they raise when the
  classifier returned something that is not a dict, or a \<open>reasoning\<close> that cannot be
  sliced.
\<close>

fun sliceable :: "json \<Rightarrow> bool" where
  "sliceable (JStr s) = True"
| "sliceable (JArr xs) = True"
| "sliceable v = False"

definition intent_node :: "env \<Rightarrow> agent_state \<Rightarrow> event list \<times> (error + agent_state)" where
  "intent_node env state =
     (case intent_agent env (user_question state) of
        (ev, intent_data) \<Rightarrow>
          (ev,
           case py_getitem intent_data ''query_type'' of
             Inl e \<Rightarrow> Inl e
           | Inr query_type \<Rightarrow>
              (case py_getitem intent_data ''reasoning'' of
                 Inr reasoning \<Rightarrow>
                   if sliceable reasoning
                   then Inr (state\<lparr>intent_analysis := intent_data,
                                   messages := messages state @ [IntentAnalyzed query_type]\<rparr>)
                   else Inl TypeError
               | Inl e \<Rightarrow>
                   Inr (state\<lparr>intent_analysis := intent_data,
                              messages := messages state @ [IntentAnalyzed query_type]\<rparr>))))"

text \<open>
  \<open>sql_node\<close>. The whole body is inside \<open>try\<close>; \<open>sql_failed\<close> is the \<open>except\<close>
  branch. The query that \<open>sql_agent\<close> returns goes to \<open>cursor.execute\<close> directly.
\<close>

definition sql_failed :: "agent_state \<Rightarrow> error \<Rightarrow> agent_state" where
  "sql_failed state e =
     state\<lparr>sql_results := Some empty_frame, sql_query := None, sql_sources := [],
           messages := messages state @ [SqlError e]\<rparr>"

definition sql_citation_ids :: "nat \<Rightarrow> cell list" where
  "sql_citation_ids n = map (\<lambda>i. CStr (''sql-'' @ str_nat (i + 1))) [0..<n]"

definition sql_node :: "env \<Rightarrow> agent_state \<Rightarrow> event list \<times> agent_state" where
  "sql_node env state =
     (case sql_agent env (user_question state) (intent_analysis state) of
        (ev, Inl e) \<Rightarrow> (ev, sql_failed state e)
      | (ev, Inr query) \<Rightarrow>
         (ev @ [StoreExecute query],
          case db_execute env query of
            Inl e \<Rightarrow> sql_failed state e
          | Inr (None, rows) \<Rightarrow> sql_failed state TypeError
          | Inr (Some cols, rows) \<Rightarrow>
             (case DataFrame (stored_cell env) rows cols of
                Inl e \<Rightarrow> sql_failed state e
              | Inr df \<Rightarrow>
                 (let limit = limit_results state;
                      df_results = (if limit < int (len df) then head df limit else df)
                  in case insert_column df_results ''citation_id''
                            (sql_citation_ids (len df_results)) of
                       Inl e \<Rightarrow> sql_failed state e
                     | Inr df_results \<Rightarrow>
                        state\<lparr>sql_results := Some df_results,
                              sql_query := Some query,
                              sql_sources :=
                                map (\<lambda>(idx, row).
                                       SqlSource (''sql-'' @ str_nat (idx + 1)) (idx + 1) (to_dict row))
                                    (iterrows df_results),
                              messages := messages state @ [SqlExecuted (len df_results)]\<rparr>))))"

text \<open>\<open>semantic_node\<close>, its body inside \<open>try\<close> as well.\<close>

definition semantic_node :: "env \<Rightarrow> agent_state \<Rightarrow> event list \<times> agent_state" where
  "semantic_node env state =
     (let limit = min (limit_results state) MAX_SEMANTIC_RESULTS in
      ([VectorQuery limit],
       case semantic_agent env (user_question state) limit of
         Inl e \<Rightarrow>
           state\<lparr>semantic_results := Some empty_frame, semantic_sources := [],
                 messages := messages state @ [SemanticError e]\<rparr>
       | Inr (df_results, sources) \<Rightarrow>
           state\<lparr>semantic_results := Some df_results, semantic_sources := sources,
                 messages := messages state @ [SemanticSearched (len df_results)]\<rparr>))"

text \<open>
  \<open>response_node\<close>. The call of \<open>response_generator\<close> is not inside a \<open>try\<close>: an
  exception of the text generator leaves the node.
\<close>

definition response_node :: "env \<Rightarrow> agent_state \<Rightarrow> event list \<times> (error + agent_state)" where
  "response_node env state =
     (let res = \<lparr>r_sql = present (sql_results state),
                 r_semantic = present (semantic_results state)\<rparr>;
          explain_data = (intent_analysis state, messages state)
      in case response_generator env (user_question state) res of
           (ev, Inl e) \<Rightarrow> (ev, Inl e)
         | (ev, Inr (response, cites)) \<Rightarrow>
            (ev, Inr (state\<lparr>final_response := response, citations := cites,
                            explanation := Some explain_data\<rparr>)))"

text \<open>
  The conditional edges. \<open>py_get\<close> is \<open>intent_analysis.get("query_type", "SEMANTIC")\<close>.
\<close>

fun py_get :: "json \<Rightarrow> string \<Rightarrow> json \<Rightarrow> error + json" where
  "py_get (JObj d) key dflt = Inr (case map_of d key of None \<Rightarrow> dflt | Some x \<Rightarrow> x)"
| "py_get v key dflt = Inl AttributeError"

definition should_use_sql :: "agent_state \<Rightarrow> error + string" where
  "should_use_sql state =
     (case py_get (intent_analysis state) ''query_type'' (JStr ''SEMANTIC'') of
        Inl e \<Rightarrow> Inl e
      | Inr query_type \<Rightarrow>
         if query_type = JStr ''STRUCTURED'' \<or> query_type = JStr ''COMBINED''
         then Inr ''sql'' else Inr ''semantic'')"

definition should_use_semantic :: "agent_state \<Rightarrow> error + string" where
  "should_use_semantic state =
     (case py_get (intent_analysis state) ''query_type'' (JStr ''SEMANTIC'') of
        Inl e \<Rightarrow> Inl e
      | Inr query_type \<Rightarrow>
         if query_type = JStr ''COMBINED'' then Inr ''semantic'' else Inr ''response'')"

text \<open>
  The compiled graph: four nodes, entry point \<open>intent\<close>, two conditional edges with
  their target tables, the edge from \<open>semantic\<close> to \<open>response\<close> and the edge from
  \<open>response\<close> to END (\<open>None\<close>).
\<close>

datatype node = Intent | Sql | Semantic | Response

definition conditional_edge ::
  "error + string \<Rightarrow> (string \<times> node) list \<Rightarrow> error + node option" where
  "conditional_edge r targets =
     (case r of
        Inl e \<Rightarrow> Inl e
      | Inr name \<Rightarrow> (case map_of targets name of None \<Rightarrow> Inl KeyError | Some n \<Rightarrow> Inr (Some n)))"

fun next_node :: "node \<Rightarrow> agent_state \<Rightarrow> error + node option" where
  "next_node Intent state =
     conditional_edge (should_use_sql state) [(''sql'', Sql), (''semantic'', Semantic)]"
| "next_node Sql state =
     conditional_edge (should_use_semantic state) [(''semantic'', Semantic), (''response'', Response)]"
| "next_node Semantic state = Inr (Some Response)"
| "next_node Response state = Inr None"

text \<open>
  A step of the graph runs a node's function and applies the state it returns to the
  stored state. Every field is overwritten, except \<open>messages\<close>: \<open>AgentState\<close>
  declares it with \<open>operator.add\<close>, so the returned list is added to the stored one.
\<close>

definition merge_state :: "agent_state \<Rightarrow> agent_state \<Rightarrow> agent_state" where
  "merge_state state update = update\<lparr>messages := messages state @ messages update\<rparr>"

definition intent_step :: "env \<Rightarrow> agent_state \<Rightarrow> event list \<times> (error + agent_state)" where
  "intent_step env state =
     (case intent_node env state of
        (ev, Inl e) \<Rightarrow> (ev, Inl e)
      | (ev, Inr update) \<Rightarrow> (ev, Inr (merge_state state update)))"

definition sql_step :: "env \<Rightarrow> agent_state \<Rightarrow> event list \<times> agent_state" where
  "sql_step env state =
     (case sql_node env state of (ev, update) \<Rightarrow> (ev, merge_state state update))"

definition semantic_step :: "env \<Rightarrow> agent_state \<Rightarrow> event list \<times> agent_state" where
  "semantic_step env state =
     (case semantic_node env state of (ev, update) \<Rightarrow> (ev, merge_state state update))"

definition response_step :: "env \<Rightarrow> agent_state \<Rightarrow> event list \<times> (error + agent_state)" where
  "response_step env state =
     (case response_node env state of
        (ev, Inl e) \<Rightarrow> (ev, Inl e)
      | (ev, Inr update) \<Rightarrow> (ev, Inr (merge_state state update)))"

fun exec_node :: "env \<Rightarrow> node \<Rightarrow> agent_state \<Rightarrow> event list \<times> (error + agent_state)" where
  "exec_node env Intent state = intent_step env state"
| "exec_node env Sql state = (case sql_step env state of (ev, state') \<Rightarrow> (ev, Inr state'))"
| "exec_node env Semantic state = (case semantic_step env state of (ev, state') \<Rightarrow> (ev, Inr state'))"
| "exec_node env Response state = response_step env state"


text \<open>
  Running the graph from a node: execute the node, follow its outgoing edge, stop at END
  or at the first exception that leaves a node or an edge function. The result is the
  list of nodes entered, the external calls made, and the final state or the exception.
  Every edge leads to a node of smaller \<open>node_rank\<close>, so a run ends.
\<close>

fun node_rank :: "node \<Rightarrow> nat" where
  "node_rank Intent = 3"
| "node_rank Sql = 2"
| "node_rank Semantic = 1"
| "node_rank Response = 0"

function run :: "env \<Rightarrow> node \<Rightarrow> agent_state \<Rightarrow> node list \<times> event list \<times> (error + agent_state)" where
  "run env n state =
     (case exec_node env n state of
        (ev, Inl e) \<Rightarrow> ([n], ev, Inl e)
      | (ev, Inr state') \<Rightarrow>
         (case next_node n state' of
            Inl e \<Rightarrow> ([n], ev, Inl e)
          | Inr None \<Rightarrow> ([n], ev, Inr state')
          | Inr (Some n') \<Rightarrow>
             (case run env n' state' of (tr, ev', r) \<Rightarrow> (n # tr, ev @ ev', r))))"
  by pat_completeness auto

termination run
proof (relation "measure (\<lambda>(env, n, state). node_rank n)")
  show "wf (measure (\<lambda>(env, n, state). node_rank n))"
    by simp
next
  fix env :: env and n n' :: node and state state' :: agent_state
    and p :: "event list \<times> (error + agent_state)" and ev r and nxt
  assume "next_node n state' = Inr nxt" and "nxt = Some n'"
  then have "node_rank n' < node_rank n"
    by (cases n) (auto simp: conditional_edge_def split: sum.splits option.splits if_splits)
  then show "((env, n', state'), (env, n, state)) \<in> measure (\<lambda>(env, n, state). node_rank n)"
    by simp
qed

declare run.simps [simp del]

definition invoke :: "env \<Rightarrow> agent_state \<Rightarrow> node list \<times> event list \<times> (error + agent_state)" where
  "invoke env initial_state = run env Intent initial_state"

section \<open>Request entry points (main.py)\<close>

text \<open>
  \<open>query_cosmetics_db\<close> with the workflow initialised: it builds the initial state,
  with the request's cap clamped to \<open>MAX_SQL_RESULTS\<close>, runs the graph and returns the
  result dict; an exception of the run leaves the function.
\<close>

record query_result =
  answer :: string
  result_sql :: "frame option"
  result_semantic :: "frame option"
  result_sql_query :: "string option"
  result_sources :: "source list"
  result_citations :: "citation list"
  result_explanation :: "(json \<times> message list) option"
  result_intent :: json

definition initial_state :: "string \<Rightarrow> bool \<Rightarrow> int \<Rightarrow> agent_state" where
  "initial_state question strm limit =
     \<lparr>user_question = question, intent_analysis = JObj [], sql_results = None,
      semantic_results = None, sql_sources = [], semantic_sources = [], sql_query = None,
      final_response = [], citations = [], explanation = None, messages = [],
      stream = strm, limit_results = min limit MAX_SQL_RESULTS\<rparr>"

definition query_cosmetics_db ::
  "env \<Rightarrow> string \<Rightarrow> bool \<Rightarrow> int \<Rightarrow> node list \<times> event list \<times> (error + query_result)" where
  "query_cosmetics_db env question strm limit =
     (case invoke env (initial_state question strm limit) of
        (tr, ev, Inl e) \<Rightarrow> (tr, ev, Inl e)
      | (tr, ev, Inr final_state) \<Rightarrow>
         (tr, ev,
          Inr \<lparr>answer = final_response final_state,
               result_sql = sql_results final_state,
               result_semantic = semantic_results final_state,
               result_sql_query = sql_query final_state,
               result_sources = sql_sources final_state @ semantic_sources final_state,
               result_citations = citations final_state,
               result_explanation = explanation final_state,
               result_intent = intent_analysis final_state\<rparr>))"

text \<open>
  The POST /query handler: the response model on success, HTTP status 500 with the
  exception as detail otherwise. \<open>to_records\<close> drops the internal columns and turns
  every value into its string.
\<close>

record QueryRequest =
  question :: string
  request_stream :: bool
  request_limit_results :: int

record QueryResponse =
  response_answer :: string
  response_sql_results :: "(string \<times> string) list list option"
  response_semantic_results :: "(string \<times> string) list list option"
  response_sources :: "source list"
  response_citations :: "citation list"
  response_explanation :: "(json \<times> message list) option"
  response_intent :: json

datatype http_result = HTTP_200 QueryResponse | HTTP_500 error

definition to_records :: "frame \<Rightarrow> (string \<times> string) list list" where
  "to_records df =
     map (\<lambda>(idx, row).
            map (\<lambda>(k, v). (k, py_str v))
              (filter (\<lambda>(k, v). \<not> List.member [''citation_id'', ''Rank'', ''Score''] k) row))
         (iterrows df)"

definition query_endpoint :: "env \<Rightarrow> QueryRequest \<Rightarrow> http_result" where
  "query_endpoint env request =
     (case query_cosmetics_db env (question request) (request_stream request)
             (request_limit_results request) of
        (tr, ev, Inl e) \<Rightarrow> HTTP_500 e
      | (tr, ev, Inr result) \<Rightarrow>
         HTTP_200
           \<lparr>response_answer = answer result,
            response_sql_results = map_option to_records (present (result_sql result)),
            response_semantic_results = map_option to_records (present (result_semantic result)),
            response_sources = result_sources result,
            response_citations = result_citations result,
            response_explanation = result_explanation result,
            response_intent = result_intent result\<rparr>)"


section \<open>Sample queries and environments\<close>

text \<open>
  \<open>env_offline\<close>: the text generator is unreachable, the store has no table, the vector
  index answers with one record.
  \<open>env_drop\<close>: the classifier answers STRUCTURED and the query generator returns a
  statement that is not a SELECT.
  \<open>env_five_rows\<close>: the classifier answers COMBINED, the generated query returns five
  rows of one column, the vector index two records.
  \<open>env_other_type\<close>: as \<open>env_five_rows\<close>, with a classifier reply whose
  \<open>query_type\<close> is none of the three names.
\<close>

definition env_offline :: env where
  "env_offline =
     \<lparr>llm_intent = (\<lambda>q. Inl (ExternalFailure ''connection refused'')),
      decode_intent = (\<lambda>s. Inl ValueError),
      llm_sql = (\<lambda>q c. Inl (ExternalFailure ''connection refused'')),
      db_execute = (\<lambda>q. Inl (ExternalFailure ''no such table'')),
      vector_query = (\<lambda>q k. Inr [\<lparr>score = ''0.9000'',
                                     metadata = [(''product_name'', CStr ''Lipstick'')]\<rparr>]),
      llm_response = (\<lambda>q a b. Inl (ExternalFailure ''connection refused'')),
      stored_cell = (\<lambda>col c. c)\<rparr>"

definition env_drop :: env where
  "env_drop =
     \<lparr>llm_intent = (\<lambda>q. Inr ''{\"query_type\": \"STRUCTURED\"}''),
      decode_intent = (\<lambda>s. Inr (JObj [(''query_type'', JStr ''STRUCTURED'')])),
      llm_sql = (\<lambda>q c. Inr ''DROP TABLE cosmetic_csv''),
      db_execute = (\<lambda>q. Inr (None, [])),
      vector_query = (\<lambda>q k. Inr []),
      llm_response = (\<lambda>q a b. Inr ''Done.''),
      stored_cell = (\<lambda>col c. c)\<rparr>"

definition env_five_rows :: env where
  "env_five_rows =
     \<lparr>llm_intent = (\<lambda>q. Inr ''{\"query_type\": \"COMBINED\"}''),
      decode_intent = (\<lambda>s. Inr (JObj [(''query_type'', JStr ''COMBINED'')])),
      llm_sql = (\<lambda>q c. Inr ''SELECT ProductName FROM cosmetic_csv''),
      db_execute = (\<lambda>q. Inr (Some [''ProductName''],
                      [[CStr ''a''], [CStr ''b''], [CStr ''c''], [CStr ''d''], [CStr ''e'']])),
      vector_query = (\<lambda>q k. Inr [\<lparr>score = ''0.9000'',
                                     metadata = [(''product_name'', CStr ''Lipstick'')]\<rparr>,
                                   \<lparr>score = ''0.8000'',
                                     metadata = [(''is_discontinued'', CBool True)]\<rparr>]),
      llm_response = (\<lambda>q a b. Inr ''Five products.''),
      stored_cell = (\<lambda>col c. c)\<rparr>"

definition env_other_type :: env where
  "env_other_type =
     env_five_rows
       \<lparr>llm_intent := (\<lambda>q. Inr ''{\"query_type\": \"HYBRID\"}''),
        decode_intent := (\<lambda>s. Inr (JObj [(''query_type'', JStr ''HYBRID'')]))\<rparr>"

text \<open>
  \<open>env_reply reply decoded\<close>: as \<open>env_five_rows\<close>, with the classifier answering
  \<open>reply\<close>, which decodes to \<open>decoded\<close>. The four instances: a reply in prose, which
  does not decode; an object without \<open>query_type\<close>; the JSON value null; and a JSON
  string that contains the three field names.
\<close>

definition env_reply :: "string \<Rightarrow> error + json \<Rightarrow> env" where
  "env_reply reply decoded =
     env_five_rows
       \<lparr>llm_intent := (\<lambda>q. Inr reply),
        decode_intent := (\<lambda>s. if s = reply then decoded else Inl ValueError)\<rparr>"

definition env_prose :: env where
  "env_prose = env_reply ''This is a counting question.'' (Inl ValueError)"

definition env_no_type :: env where
  "env_no_type = env_reply ''{\"intent\": \"usage\"}'' (Inr (JObj [(''intent'', JStr ''usage'')]))"

definition env_null :: env where
  "env_null = env_reply ''null'' (Inr JNull)"

definition env_names_text :: env where
  "env_names_text =
     env_reply ''\"query_type entities intent\"'' (Inr (JStr ''query_type entities intent''))"

text \<open>
  The example query of the specification; the closing quote of the literal
  \<open>'%titanium dioxide%'\<close> is appended as a character.
\<close>

definition titanium_query :: string where
  "titanium_query =
     ''SELECT COUNT(DISTINCT CDPHId) FROM cosmetic_csv WHERE ChemicalName LIKE '%titanium dioxide%'' @ [CHR 0x27]"

section \<open>Properties of the Query Safety Filter\<close>

text \<open>
  C2. On the example query over \<open>cosmetic_csv\<close> the filter does not accept: the query
  passes the SELECT, keyword and injection rules, and is then rejected by the table rule,
  because \<open>cosmetic_csv\<close>, the one table of the store, is not in \<open>ALLOWED_TABLES\<close>.
  With \<open>; DROP TABLE cosmetic_csv\<close> appended it is rejected for the keyword DROP, in
  whatever order the keyword set is iterated (lemma \<open>drop_suffix_any_order\<close>).
\<close>

theorem validate_query_titanium:
  "validate_query titanium_query = (False, Some (TableNotAllowed ''cosmetic_csv''))
   \<and> validate_query (titanium_query @ ''; DROP TABLE cosmetic_csv'')
       = (False, Some (DangerousKeyword ''DROP''))"
  by code_simp

lemma validate_query_any_order:
  assumes "set keywords = set DANGEROUS_KEYWORDS"
  shows "validate_query_in keywords q = validate_query q \<or>
     (\<exists>k k'. validate_query_in keywords q = (False, Some (DangerousKeyword k)) \<and>
             validate_query q = (False, Some (DangerousKeyword k')))"
proof (cases "q = [] \<or> \<not> match_select (strip q)")
  case True
  then have "validate_query_in keywords q = validate_query_in DANGEROUS_KEYWORDS q"
    unfolding validate_query_in_def Let_def by auto
  then show ?thesis by (simp only: validate_query_def simp_thms)
next
  case False
  let ?P = "\<lambda>keyword. search_keyword keyword (upper (strip q))"
  define rest where "rest = validate_query_in [] q"
  have unf: "validate_query_in ks q
      = (case find ?P ks of Some k \<Rightarrow> (False, Some (DangerousKeyword k)) | None \<Rightarrow> rest)" for ks
    using False unfolding rest_def validate_query_in_def Let_def
    by (cases "find ?P ks") simp_all
  show ?thesis
  proof (cases "find ?P keywords")
    case None
    then have "find ?P DANGEROUS_KEYWORDS = None"
      using assms by (simp add: find_None_iff)
    with None show ?thesis
      by (simp only: validate_query_def unf option.case simp_thms)
  next
    case (Some k)
    then have "?P k" and "k \<in> set keywords"
      by (auto simp: find_Some_iff)
    then have "find ?P DANGEROUS_KEYWORDS \<noteq> None"
      using assms by (auto simp: find_None_iff)
    then obtain k' where "find ?P DANGEROUS_KEYWORDS = Some k'"
      by auto
    with Some show ?thesis
      by (simp only: validate_query_def unf option.case) blast
  qed
qed


lemma drop_suffix_any_order:
  assumes "set keywords = set DANGEROUS_KEYWORDS"
  shows "validate_query_in keywords (titanium_query @ ''; DROP TABLE cosmetic_csv'')
     = (False, Some (DangerousKeyword ''DROP''))"
proof -
  let ?q = "titanium_query @ ''; DROP TABLE cosmetic_csv''"
  let ?P = "\<lambda>keyword. search_keyword keyword (upper (strip ?q))"
  have ne: "?q \<noteq> []" by simp
  have ms: "match_select (strip ?q)" by code_simp
  have f: "filter ?P DANGEROUS_KEYWORDS = [''DROP'']" by code_simp
  have only: "\<And>k. k \<in> set DANGEROUS_KEYWORDS \<Longrightarrow> ?P k \<Longrightarrow> k = ''DROP''"
  proof -
    fix k assume "k \<in> set DANGEROUS_KEYWORDS" and "?P k"
    then have "k \<in> set (filter ?P DANGEROUS_KEYWORDS)" by simp
    then show "k = ''DROP''" by (simp only: f) simp
  qed
  have "''DROP'' \<in> set (filter ?P DANGEROUS_KEYWORDS)" by (simp only: f) simp
  then have d: "''DROP'' \<in> set keywords" and pd: "?P ''DROP''"
    using assms by simp_all
  then have "find ?P keywords \<noteq> None"
    by (auto simp: find_None_iff)
  then obtain k where k: "find ?P keywords = Some k" by auto
  then have "?P k" and "k \<in> set keywords"
    by (auto simp: find_Some_iff)
  with assms only have "k = ''DROP''" by simp
  with k ne ms show ?thesis
    by (simp add: validate_query_in_def Let_def)
qed














text \<open>
  C8. A table named after JOIN is not checked: the query below joins the table
  \<open>users\<close>, which is not in the allow-list, and is accepted. Only names captured after
  FROM reach the allow-list test (lemma \<open>validate_query_from_table\<close>).
\<close>

theorem validate_query_join_accepted:
  "\<not> List.member ALLOWED_TABLES (lower ''users'') \<and>
   validate_query ''SELECT * FROM products JOIN users ON products.id = users.id'' = (True, None)"
  by code_simp

lemma validate_query_from_table:
  assumes "q \<noteq> []" and "match_select (strip q)"
    and "find (\<lambda>keyword. search_keyword keyword (upper (strip q))) DANGEROUS_KEYWORDS = None"
    and "find (\<lambda>pattern. search_injection pattern (strip q)) injection_patterns = None"
    and "t \<in> set (findall_from None 0 (strip q))"
    and "\<not> List.member ALLOWED_TABLES (lower t)"
  shows "\<exists>t'. validate_query q = (False, Some (TableNotAllowed t'))"
proof -
  let ?P = "\<lambda>table. \<not> List.member ALLOWED_TABLES (lower table)"
  from assms(5,6) have "find ?P (findall_from None 0 (strip q)) \<noteq> None"
    by (auto simp: find_None_iff)
  then obtain t' where "find ?P (findall_from None 0 (strip q)) = Some t'"
    by auto
  with assms(1-4) show ?thesis
    by (simp add: validate_query_def validate_query_in_def Let_def)
qed

section \<open>Properties of the pipeline\<close>

text \<open>
  C1. The structured stage does not consult the filter: \<open>sql_node\<close> hands the text that
  \<open>sql_agent\<close> returns to the store as it is (lemma \<open>sql_node_executes_generated\<close>).
  In the run below the generator answers \<open>DROP TABLE cosmetic_csv\<close>; the statement is
  executed against the store, although \<open>validate_sql_before_execution\<close> rejects it.
\<close>

theorem unvalidated_query_executed:
  "fst (snd (query_cosmetics_db env_drop ''how many products'' True 6))
     = [TextGeneration INTENT_AGENT_PROMPT, TextGeneration SQL_AGENT_PROMPT,
        StoreExecute ''DROP TABLE cosmetic_csv'']
   \<and> validate_sql_before_execution ''DROP TABLE cosmetic_csv'' = (False, Some OnlySelectAllowed)"
  by code_simp

lemma sql_node_executes_generated:
  "sql_agent env (user_question state) (intent_analysis state) = (ev, Inr query)
   \<Longrightarrow> fst (sql_node env state) = ev @ [StoreExecute query]"
  by (simp add: sql_node_def)

text \<open>
  C4. A failure of answer synthesis is not caught: with the text generator unreachable
  and one semantic record retrieved, \<open>response_generator\<close> raises inside
  \<open>response_node\<close>, the run ends with that exception and the request is answered with
  HTTP status 500. Failures of the two retrieval stages are caught inside their nodes
  (lemmas \<open>sql_failure_caught\<close> and \<open>semantic_failure_caught\<close>).
\<close>

theorem synthesis_failure_is_http_500:
  "query_endpoint env_offline
     \<lparr>question = ''alternatives to parabens'', request_stream = True, request_limit_results = 6\<rparr>
   = HTTP_500 (ExternalFailure ''connection refused'')"
  by code_simp

lemma sql_failure_caught:
  assumes "sql_agent env (user_question st) (intent_analysis st) = (ev, Inr query)"
    and "db_execute env query = Inl e"
  shows "snd (sql_node env st) = sql_failed st e"
  using assms by (simp add: sql_node_def)

lemma semantic_failure_caught:
  assumes "vector_query env (user_question st) (min (limit_results st) MAX_SEMANTIC_RESULTS) = Inl e"
  shows "snd (semantic_node env st)
     = st\<lparr>semantic_results := Some empty_frame, semantic_sources := [],
          messages := messages st @ [SemanticError e]\<rparr>"
  using assms by (simp add: semantic_node_def semantic_agent_def semantic_search_def Let_def)

text \<open>
  C6 as stated fails: a classifier reply that parses and carries a \<open>query_type\<close> outside
  the three names is returned with that value.
\<close>

theorem query_type_unrecognised_counterexample:
  "py_getitem (snd (intent_agent env_other_type ''list products'')) ''query_type''
     = Inr (JStr ''HYBRID'')
   \<and> JStr ''HYBRID'' \<notin> {JStr ''STRUCTURED'', JStr ''SEMANTIC'', JStr ''COMBINED''}"
  by code_simp

lemma setdefault_field_present:
  assumes "map_of d k = Some v"
  shows "setdefault_field k x (JObj d) = Inr (JObj d)"
proof -
  from assms have "k \<in> fst ` set d"
    by (metis domI dom_map_of_conv_image_fst)
  then show ?thesis
    by (simp add: setdefault_field_def)
qed

lemma setdefault_field_other:
  assumes "map_of d k = Some v" and "k' \<noteq> k"
  shows "\<exists>d'. setdefault_field k' x (JObj d) = Inr (JObj d') \<and> map_of d' k = Some v"
  using assms
  by (cases "k' \<in> fst ` set d") (auto simp: setdefault_field_def update_conv')

lemma ensure_fields_keeps_query_type:
  assumes "map_of d ''query_type'' = Some v"
  shows "\<exists>d'. ensure_fields q (JObj d) = Inr (JObj d') \<and> map_of d' ''query_type'' = Some v"
proof -
  obtain d1 where d1: "setdefault_field ''entities'' (JObj []) (JObj d) = Inr (JObj d1)"
      "map_of d1 ''query_type'' = Some v"
    using setdefault_field_other [OF assms, of "''entities''"] by auto
  obtain d2 where d2: "setdefault_field ''intent'' (JStr q) (JObj d1) = Inr (JObj d2)"
      "map_of d2 ''query_type'' = Some v"
    using setdefault_field_other [OF d1(2), of "''intent''"] by auto
  show ?thesis
    using d1 d2 by (simp add: ensure_fields_def setdefault_field_present [OF assms])
qed

lemma setdefault_field_absent:
  assumes "map_of d k = None"
  shows "setdefault_field k x (JObj d) = Inr (JObj (AList.update k x d))"
proof -
  from assms have "k \<notin> fst ` set d"
    by (simp add: map_of_eq_None_iff)
  then show ?thesis
    by (simp add: setdefault_field_def)
qed

lemma ensure_fields_defaults_query_type:
  assumes "map_of d ''query_type'' = None"
  shows "\<exists>d'. ensure_fields q (JObj d) = Inr (JObj d') \<and>
     map_of d' ''query_type''
       = Some (if any_word [''how many'', ''count'', ''total'', ''top'', ''most''] q
               then JStr ''STRUCTURED'' else JStr ''SEMANTIC'')"
proof -
  let ?v = "if any_word [''how many'', ''count'', ''total'', ''top'', ''most''] q
            then JStr ''STRUCTURED'' else JStr ''SEMANTIC''"
  let ?d = "AList.update ''query_type'' ?v d"
  have p: "map_of ?d ''query_type'' = Some ?v"
    by (simp add: update_conv')
  have "ensure_fields q (JObj d) = ensure_fields q (JObj ?d)"
    by (simp only: ensure_fields_def setdefault_field_absent [OF assms]
          setdefault_field_present [OF p])
  with ensure_fields_keeps_query_type [OF p, of q] show ?thesis
    by simp
qed

lemma ensure_fields_raises:
  assumes "\<not> is_dict x"
    and "\<not> (py_contains ''query_type'' x = Inr True \<and> py_contains ''entities'' x = Inr True
            \<and> py_contains ''intent'' x = Inr True)"
  shows "\<exists>e. ensure_fields q x = Inl e"
  using assms
  by (cases x) (auto simp: ensure_fields_def setdefault_field_def split: sum.splits bool.splits)


text \<open>
  C6, amended. The returned intent has a \<open>query_type\<close> of STRUCTURED or SEMANTIC in
  each of these cases: the model call fails or its reply cannot be decoded (STRUCTURED if
  the lower-cased question contains "how many", "count", "total" or "top", SEMANTIC
  otherwise); the reply decodes to an object without a \<open>query_type\<close> field (the same
  rule, with "most" as a fifth word); the reply decodes to a value that is no object
  and does not itself contain the three field names (the first rule). When the reply
  decodes to an object that has a \<open>query_type\<close> field, the intent carries that field
  unchanged, whatever its value. (A decoded string or list that contains the three field
  names is returned as it is and is no intent: lemma \<open>names_text_returned\<close>.)
\<close>

theorem intent_query_type:
  "(llm_intent env q = Inl e \<or> (llm_intent env q = Inr r \<and> decode_intent env r = Inl e) \<longrightarrow>
      py_getitem (snd (intent_agent env q)) ''query_type''
        = Inr (if any_word [''how many'', ''count'', ''total'', ''top''] q
               then JStr ''STRUCTURED'' else JStr ''SEMANTIC''))
   \<and> (llm_intent env q = Inr r \<and> decode_intent env r = Inr (JObj d)
        \<and> map_of d ''query_type'' = Some v \<longrightarrow>
      py_getitem (snd (intent_agent env q)) ''query_type'' = Inr v)
   \<and> (llm_intent env q = Inr r \<and> decode_intent env r = Inr (JObj d)
        \<and> map_of d ''query_type'' = None \<longrightarrow>
      py_getitem (snd (intent_agent env q)) ''query_type''
        = Inr (if any_word [''how many'', ''count'', ''total'', ''top'', ''most''] q
               then JStr ''STRUCTURED'' else JStr ''SEMANTIC''))
   \<and> (llm_intent env q = Inr r \<and> decode_intent env r = Inr x \<and> \<not> is_dict x
        \<and> \<not> (py_contains ''query_type'' x = Inr True \<and> py_contains ''entities'' x = Inr True
               \<and> py_contains ''intent'' x = Inr True) \<longrightarrow>
      py_getitem (snd (intent_agent env q)) ''query_type''
        = Inr (if any_word [''how many'', ''count'', ''total'', ''top''] q
               then JStr ''STRUCTURED'' else JStr ''SEMANTIC''))"
proof (intro conjI impI)
  assume "llm_intent env q = Inl e \<or> (llm_intent env q = Inr r \<and> decode_intent env r = Inl e)"
  then show "py_getitem (snd (intent_agent env q)) ''query_type''
        = Inr (if any_word [''how many'', ''count'', ''total'', ''top''] q
               then JStr ''STRUCTURED'' else JStr ''SEMANTIC'')"
    by (auto simp: intent_agent_def fallback_intent_def)
next
  assume a: "llm_intent env q = Inr r \<and> decode_intent env r = Inr (JObj d)
        \<and> map_of d ''query_type'' = Some v"
  then obtain d' where "ensure_fields q (JObj d) = Inr (JObj d')" "map_of d' ''query_type'' = Some v"
    using ensure_fields_keeps_query_type by blast
  with a show "py_getitem (snd (intent_agent env q)) ''query_type'' = Inr v"
    by (simp add: intent_agent_def)
next
  assume a: "llm_intent env q = Inr r \<and> decode_intent env r = Inr (JObj d)
        \<and> map_of d ''query_type'' = None"
  then obtain d' where "ensure_fields q (JObj d) = Inr (JObj d')"
     "map_of d' ''query_type''
       = Some (if any_word [''how many'', ''count'', ''total'', ''top'', ''most''] q
               then JStr ''STRUCTURED'' else JStr ''SEMANTIC'')"
    using ensure_fields_defaults_query_type by blast
  with a show "py_getitem (snd (intent_agent env q)) ''query_type''
        = Inr (if any_word [''how many'', ''count'', ''total'', ''top'', ''most''] q
               then JStr ''STRUCTURED'' else JStr ''SEMANTIC'')"
    by (simp add: intent_agent_def)
next
  assume a: "llm_intent env q = Inr r \<and> decode_intent env r = Inr x \<and> \<not> is_dict x
        \<and> \<not> (py_contains ''query_type'' x = Inr True \<and> py_contains ''entities'' x = Inr True
               \<and> py_contains ''intent'' x = Inr True)"
  then obtain e' where "ensure_fields q x = Inl e'"
    using ensure_fields_raises by blast
  with a show "py_getitem (snd (intent_agent env q)) ''query_type''
        = Inr (if any_word [''how many'', ''count'', ''total'', ''top''] q
               then JStr ''STRUCTURED'' else JStr ''SEMANTIC'')"
    by (simp add: intent_agent_def fallback_intent_def)
qed

theorem intent_query_type_witness:
  "(llm_intent env_prose ''how many products'' = Inr ''This is a counting question.''
    \<and> decode_intent env_prose ''This is a counting question.'' = Inl ValueError
    \<and> py_getitem (snd (intent_agent env_prose ''how many products'')) ''query_type''
         = Inr (JStr ''STRUCTURED''))
   \<and> (llm_intent env_other_type ''list products'' = Inr ''{\"query_type\": \"HYBRID\"}''
    \<and> decode_intent env_other_type ''{\"query_type\": \"HYBRID\"}''
         = Inr (JObj [(''query_type'', JStr ''HYBRID'')])
    \<and> map_of [(''query_type'', JStr ''HYBRID'')] ''query_type'' = Some (JStr ''HYBRID'')
    \<and> py_getitem (snd (intent_agent env_other_type ''list products'')) ''query_type''
         = Inr (JStr ''HYBRID''))
   \<and> (llm_intent env_no_type ''the most used chemical'' = Inr ''{\"intent\": \"usage\"}''
    \<and> decode_intent env_no_type ''{\"intent\": \"usage\"}'' = Inr (JObj [(''intent'', JStr ''usage'')])
    \<and> map_of [(''intent'', JStr ''usage'')] ''query_type'' = None
    \<and> py_getitem (snd (intent_agent env_no_type ''the most used chemical'')) ''query_type''
         = Inr (JStr ''STRUCTURED''))
   \<and> (llm_intent env_null ''list products'' = Inr ''null''
    \<and> decode_intent env_null ''null'' = Inr JNull
    \<and> \<not> is_dict JNull
    \<and> \<not> (py_contains ''query_type'' JNull = Inr True \<and> py_contains ''entities'' JNull = Inr True
           \<and> py_contains ''intent'' JNull = Inr True)
    \<and> py_getitem (snd (intent_agent env_null ''list products'')) ''query_type''
         = Inr (JStr ''SEMANTIC''))"
proof -
  have a1: "llm_intent env_prose ''how many products'' = Inr ''This is a counting question.''"
    by (simp add: env_prose_def env_reply_def)
  have a2: "decode_intent env_prose ''This is a counting question.'' = Inl ValueError"
    by (simp add: env_prose_def env_reply_def)
  have a3: "any_word [''how many'', ''count'', ''total'', ''top''] ''how many products''"
    by code_simp
  from intent_query_type [of env_prose "''how many products''" ValueError
      "''This is a counting question.''" "[]" JNull JNull] a1 a2 a3
  have A: "py_getitem (snd (intent_agent env_prose ''how many products'')) ''query_type''
             = Inr (JStr ''STRUCTURED'')"
    by simp
  have b1: "llm_intent env_other_type ''list products'' = Inr ''{\"query_type\": \"HYBRID\"}''"
    by (simp add: env_other_type_def)
  have b2: "decode_intent env_other_type ''{\"query_type\": \"HYBRID\"}''
              = Inr (JObj [(''query_type'', JStr ''HYBRID'')])"
    by (simp add: env_other_type_def)
  have b3: "map_of [(''query_type'', JStr ''HYBRID'')] ''query_type'' = Some (JStr ''HYBRID'')"
    by simp
  from intent_query_type [of env_other_type "''list products''" ValueError
      "''{\"query_type\": \"HYBRID\"}''" "[(''query_type'', JStr ''HYBRID'')]" "JStr ''HYBRID''" JNull]
    b1 b2 b3
  have B: "py_getitem (snd (intent_agent env_other_type ''list products'')) ''query_type''
             = Inr (JStr ''HYBRID'')"
    by simp
  have c1: "llm_intent env_no_type ''the most used chemical'' = Inr ''{\"intent\": \"usage\"}''"
    by (simp add: env_no_type_def env_reply_def)
  have c2: "decode_intent env_no_type ''{\"intent\": \"usage\"}''
              = Inr (JObj [(''intent'', JStr ''usage'')])"
    by (simp add: env_no_type_def env_reply_def)
  have c3: "map_of [(''intent'', JStr ''usage'')] ''query_type'' = None"
    by simp
  have c4: "any_word [''how many'', ''count'', ''total'', ''top'', ''most''] ''the most used chemical''"
    by code_simp
  from intent_query_type [of env_no_type "''the most used chemical''" ValueError
      "''{\"intent\": \"usage\"}''" "[(''intent'', JStr ''usage'')]" JNull JNull] c1 c2 c3 c4
  have C: "py_getitem (snd (intent_agent env_no_type ''the most used chemical'')) ''query_type''
             = Inr (JStr ''STRUCTURED'')"
    by simp
  have d1: "llm_intent env_null ''list products'' = Inr ''null''"
    by (simp add: env_null_def env_reply_def)
  have d2: "decode_intent env_null ''null'' = Inr JNull"
    by (simp add: env_null_def env_reply_def)
  have d3: "\<not> is_dict JNull" by simp
  have d4: "\<not> (py_contains ''query_type'' JNull = Inr True \<and> py_contains ''entities'' JNull = Inr True
           \<and> py_contains ''intent'' JNull = Inr True)"
    by simp
  have d5: "\<not> any_word [''how many'', ''count'', ''total'', ''top''] ''list products''"
    by code_simp
  from intent_query_type [of env_null "''list products''" ValueError "''null''" "[]" JNull JNull]
    d1 d2 d3 d4 d5
  have D: "py_getitem (snd (intent_agent env_null ''list products'')) ''query_type''
             = Inr (JStr ''SEMANTIC'')"
    by simp
  from a1 a2 A b1 b2 b3 B c1 c2 c3 C d1 d2 d3 d4 D show ?thesis
    by (intro conjI)
qed

lemma names_text_returned:
  "snd (intent_agent env_names_text ''list products'') = JStr ''query_type entities intent''
   \<and> snd (intent_step env_names_text (initial_state ''list products'' True 6)) = Inl TypeError"
  by code_simp

text \<open>
  C9. When the structured and the semantic result set are both absent or empty, the
  synthesizer returns the fixed not-found message and an empty citation list, and the
  list of external calls it made is empty: no text-generation call is issued.
\<close>

theorem not_found_without_generation:
  assumes "is_empty_result (r_sql res)" and "is_empty_result (r_semantic res)"
  shows "response_generator env q res = ([], Inr (NOT_FOUND_MESSAGE, []))"
  using assms
  by (auto simp: response_generator_def build_citation_map_def is_empty_result_def Let_def
           split: option.splits)

theorem not_found_without_generation_witness:
  "is_empty_result (r_sql \<lparr>r_sql = Some empty_frame, r_semantic = None\<rparr>) \<and>
   is_empty_result (r_semantic \<lparr>r_sql = Some empty_frame, r_semantic = None\<rparr>) \<and>
   response_generator env_five_rows ''list products'' \<lparr>r_sql = Some empty_frame, r_semantic = None\<rparr>
     = ([], Inr (NOT_FOUND_MESSAGE, []))"
proof -
  have a: "is_empty_result (r_sql \<lparr>r_sql = Some empty_frame, r_semantic = None\<rparr>)"
    by (simp add: is_empty_result_def empty_frame_def len_def)
  have b: "is_empty_result (r_semantic \<lparr>r_sql = Some empty_frame, r_semantic = None\<rparr>)"
    by (simp add: is_empty_result_def)
  from not_found_without_generation [OF a b] a b show ?thesis by simp
qed

section \<open>Citation numbering\<close>

lemma digit_char_inj: "a < 10 \<Longrightarrow> b < 10 \<Longrightarrow> digit_char a = digit_char b \<Longrightarrow> a = b"
proof -
  assume a: "a < 10" and b: "b < 10" and e: "digit_char a = digit_char b"
  have d: "distinct ''0123456789''" by simp
  have l: "length ''0123456789'' = 10" by simp
  from e have "''0123456789'' ! a = ''0123456789'' ! b" by (simp add: digit_char_def)
  with d a b l show "a = b"
    by (metis nth_eq_iff_index_eq)
qed

lemma str_nat_nonempty: "str_nat n \<noteq> []"
  by (subst str_nat.simps) simp

lemma str_nat_inj: "str_nat a = str_nat b \<Longrightarrow> a = b"
proof (induction a arbitrary: b rule: str_nat.induct)
  case (1 n)
  show ?case
  proof (cases "n < 10")
    case True
    then have n: "str_nat n = [digit_char n]" by (subst str_nat.simps) simp
    show ?thesis
    proof (cases "b < 10")
      case True
      then have "str_nat b = [digit_char b]" by (subst str_nat.simps) simp
      with n "1.prems" \<open>n < 10\<close> True show ?thesis by (auto dest: digit_char_inj)
    next
      case False
      then have "str_nat b = str_nat (b div 10) @ [digit_char (b mod 10)]"
        by (subst str_nat.simps) simp
      with n "1.prems" str_nat_nonempty [of "b div 10"] show ?thesis by simp
    qed
  next
    case False
    then have n: "str_nat n = str_nat (n div 10) @ [digit_char (n mod 10)]"
      by (subst str_nat.simps) simp
    show ?thesis
    proof (cases "b < 10")
      case True
      then have "str_nat b = [digit_char b]" by (subst str_nat.simps) simp
      with n "1.prems" str_nat_nonempty [of "n div 10"] show ?thesis by simp
    next
      case b: False
      then have "str_nat b = str_nat (b div 10) @ [digit_char (b mod 10)]"
        by (subst str_nat.simps) simp
      with n "1.prems" have e: "str_nat (n div 10) = str_nat (b div 10)"
          "digit_char (n mod 10) = digit_char (b mod 10)"
        by simp_all
      from "1.IH" [OF False e(1)] have q: "n div 10 = b div 10" .
      have "n mod 10 < 10" and "b mod 10 < 10" by simp_all
      with e(2) have r: "n mod 10 = b mod 10"
        by (rule digit_char_inj [rotated 2])
      from q r show ?thesis
        by (metis div_mult_mod_eq)
    qed
  qed
qed

lemma update_fresh: "k \<notin> fst ` set al \<Longrightarrow> AList.update k v al = al @ [(k, v)]"
  by (induction al) auto

lemma fold_insert_fresh:
  assumes f: "\<And>ir cm c. f ir (cm, c) = (AList.update (key ir) (val ir c) cm, c + 1)"
  shows "distinct (map key irs) \<Longrightarrow> key ` set irs \<inter> fst ` set cm = {} \<Longrightarrow>
     fold f irs (cm, c)
       = (cm @ map (\<lambda>(ir, n). (key ir, val ir n)) (zip irs [c..<c + length irs]), c + length irs)"
proof (induction irs arbitrary: cm c)
  case Nil
  then show ?case by simp
next
  case (Cons ir irs)
  from Cons.prems have fresh: "key ir \<notin> fst ` set cm" by auto
  have step: "f ir (cm, c) = (cm @ [(key ir, val ir c)], Suc c)"
    by (simp add: f update_fresh [OF fresh])
  from Cons.prems have d: "distinct (map key irs)"
    and i: "key ` set irs \<inter> fst ` set (cm @ [(key ir, val ir c)]) = {}"
    by auto
  have up: "[c..<c + length (ir # irs)] = c # [Suc c..<Suc c + length irs]"
    by (simp add: upt_rec)
  show ?case
    by (simp only: fold_simps step Cons.IH [OF d i] up) simp
qed

lemma take_upt_min: "take k [0..<n] = [0..<min k n]"
  by (cases "k \<le> n") (simp_all add: min_def)

lemma sql_frame_index:
  assumes "sql_results (snd (sql_node env st)) = Some f"
  shows "index f = [0..<length (data f)]"
  using assms
  by (auto simp: sql_node_def sql_failed_def empty_frame_def DataFrame_def store_cells_def head_def
        insert_column_def len_def sql_citation_ids_def Let_def take_upt_min min_def
      split: prod.splits sum.splits option.splits if_splits)

lemma result_row_head:
  "\<exists>ks cs. result_row i m = (''citation_id'', CStr (''sem-'' @ str_nat i)) # zip ks cs
     \<and> length ks = length cs"
proof -
  have "\<exists>r. result_row i m = (''citation_id'', CStr (''sem-'' @ str_nat i)) # r"
    by (simp add: result_row_def Let_def)
  then obtain r where "result_row i m = (''citation_id'', CStr (''sem-'' @ str_nat i)) # r" ..
  moreover have "r = zip (map fst r) (map snd r)" by (simp add: zip_map_fst_snd)
  ultimately show ?thesis
    by (metis length_map)
qed

lemma length_store_cells: "length (store_cells conv cells) = length cells"
  by (simp add: store_cells_def)

lemma column0_text:
  assumes "\<forall>row\<in>set cells. \<exists>s rest. row = CStr s # rest"
  shows "list_all is_text (column 0 cells)"
  using assms by (induction cells) (auto simp: column_def)

lemma stored_row_head:
  assumes "\<forall>row\<in>set cells. \<exists>s rest. row = CStr s # rest" and "k < length cells"
    and "cells ! k = CStr s # rest"
  shows "\<exists>rest'. store_cells conv cells ! k = CStr s # rest'"
  using assms column0_text [OF assms(1)]
  by (simp add: store_cells_def enumerate_simps)

lemma frame_of_rows_semantic:
  fixes ms :: "vmatch list" and conv :: "cell list \<Rightarrow> cell \<Rightarrow> cell"
  defines "f \<equiv> frame_of_rows conv (map (\<lambda>(i, m). result_row i m) (enumerate 1 ms))"
  shows "length (iterrows f) = length ms \<and>
     (\<forall>k<length ms. fst (iterrows f ! k) = k \<and>
        map_of (snd (iterrows f ! k)) ''citation_id'' = Some (CStr (''sem-'' @ str_nat (Suc k))))"
proof (cases ms)
  case Nil
  then show ?thesis by (simp add: f_def frame_of_rows_def iterrows_def empty_frame_def)
next
  case (Cons m0 ms')
  let ?rows = "map (\<lambda>(i, m). result_row i m) (enumerate 1 ms)"
  let ?cells = "map (map snd) ?rows"
  obtain ks0 cs0 where r0: "result_row (Suc 0) m0 = (''citation_id'', CStr (''sem-'' @ str_nat (Suc 0))) # zip ks0 cs0"
    using result_row_head by blast
  have f: "f = \<lparr>columns = ''citation_id'' # map fst (zip ks0 cs0), index = [0..<length ms],
                data = store_cells conv ?cells\<rparr>"
    unfolding f_def Cons by (simp add: frame_of_rows_def r0 del: upt_Suc)
  have all: "\<forall>row\<in>set ?cells. \<exists>s rest. row = CStr s # rest"
  proof
    fix row assume "row \<in> set ?cells"
    then obtain i m where "row = map snd (result_row i m)" by auto
    with result_row_head [of i m] show "\<exists>s rest. row = CStr s # rest" by auto
  qed
  have len: "length (store_cells conv ?cells) = length ms"
    by (simp add: store_cells_def)
  have l: "length (iterrows f) = length ms"
    by (simp add: f iterrows_def length_store_cells)
  moreover have "\<forall>k<length ms. fst (iterrows f ! k) = k \<and>
        map_of (snd (iterrows f ! k)) ''citation_id'' = Some (CStr (''sem-'' @ str_nat (Suc k)))"
  proof (intro allI impI)
    fix k assume k: "k < length ms"
    obtain ks cs where rk: "result_row (Suc k) (ms ! k)
        = (''citation_id'', CStr (''sem-'' @ str_nat (Suc k))) # zip ks cs"
      using result_row_head by blast
    from k have "?cells ! k = map snd (result_row (Suc k) (ms ! k))"
      by (simp add: nth_enumerate_eq)
    with rk have ck: "?cells ! k = CStr (''sem-'' @ str_nat (Suc k)) # map snd (zip ks cs)"
      by simp
    from k have kc: "k < length ?cells" by simp
    from stored_row_head [OF all kc ck, of conv] obtain rest' where
      st: "store_cells conv ?cells ! k = CStr (''sem-'' @ str_nat (Suc k)) # rest'" ..
    from k have "iterrows f ! k
        = (k, zip (''citation_id'' # map fst (zip ks0 cs0)) (store_cells conv ?cells ! k))"
      by (simp add: f iterrows_def length_store_cells)
    with st show "fst (iterrows f ! k) = k \<and>
        map_of (snd (iterrows f ! k)) ''citation_id'' = Some (CStr (''sem-'' @ str_nat (Suc k)))"
      by simp
  qed
  ultimately show ?thesis by blast
qed

lemma sem_frame_rows:
  assumes "semantic_results (snd (semantic_node env st)) = Some f"
  shows "map fst (iterrows f) = [0..<length (iterrows f)] \<and>
     (\<forall>ir\<in>set (iterrows f).
        map_of (snd ir) ''citation_id'' = Some (CStr (''sem-'' @ str_nat (Suc (fst ir)))))"
proof -
  have "\<exists>n. length (iterrows f) = n \<and>
     (\<forall>k<n. fst (iterrows f ! k) = k \<and>
        map_of (snd (iterrows f ! k)) ''citation_id'' = Some (CStr (''sem-'' @ str_nat (Suc k))))"
  proof (cases "semantic_agent env (user_question st) (min (limit_results st) MAX_SEMANTIC_RESULTS)")
    case (Inl e)
    with assms have "f = empty_frame"
      by (auto simp: semantic_node_def Let_def)
    then show ?thesis by (simp add: iterrows_def empty_frame_def)
  next
    case (Inr p)
    then obtain ms where "f = frame_of_rows (stored_cell env) (map (\<lambda>(i, m). result_row i m) (enumerate 1 ms))"
      using assms
      by (auto simp: semantic_node_def semantic_agent_def semantic_search_def Let_def
            split: sum.splits prod.splits)
    then show ?thesis
      using frame_of_rows_semantic [of "stored_cell env" ms] by blast
  qed
  then obtain n where n: "length (iterrows f) = n"
    and p: "\<forall>k<n. fst (iterrows f ! k) = k \<and>
        map_of (snd (iterrows f ! k)) ''citation_id'' = Some (CStr (''sem-'' @ str_nat (Suc k)))"
    by blast
  have a: "map fst (iterrows f) = [0..<length (iterrows f)]"
    by (rule nth_equalityI) (simp_all add: n p)
  have b: "\<forall>ir\<in>set (iterrows f).
        map_of (snd ir) ''citation_id'' = Some (CStr (''sem-'' @ str_nat (Suc (fst ir))))"
  proof
    fix ir assume "ir \<in> set (iterrows f)"
    then obtain k where "k < n" "ir = iterrows f ! k"
      using n by (auto simp: in_set_conv_nth)
    with p show "map_of (snd ir) ''citation_id'' = Some (CStr (''sem-'' @ str_nat (Suc (fst ir))))"
      by simp
  qed
  from a b show ?thesis ..
qed

lemma iterrows_empty: "len df = 0 \<Longrightarrow> iterrows df = []"
  by (simp add: iterrows_def len_def)

lemma build_citation_map_fold:
  "build_citation_map \<lparr>r_sql = rs, r_semantic = rm\<rparr>
     = fst (fold add_semantic (rows_of rm) (fold add_sql (rows_of rs) ([], 1)))"
  by (auto simp: build_citation_map_def rows_of_def Let_def iterrows_empty split: option.splits)

lemma sql_key_inj: "inj_on (\<lambda>i. CStr (''sql-'' @ str_nat (Suc i))) A"
  by (auto simp: inj_on_def dest: str_nat_inj)

lemma sem_key_inj: "inj_on (\<lambda>i. CStr (''sem-'' @ str_nat (Suc i))) A"
  by (auto simp: inj_on_def dest: str_nat_inj)

lemma fold_add_sql:
  assumes "map fst irs = [0..<length irs]"
  shows "fold add_sql irs ([], 1)
     = (map (\<lambda>(ir, n). (CStr (''sql-'' @ str_nat (Suc (fst ir))),
                       \<lparr>c_type = ''sql'', c_row_index = Suc (fst ir), c_row_data = to_dict (snd ir),
                        c_citation_number = n\<rparr>)) (zip irs [1..<1 + length irs]),
        1 + length irs)"
proof -
  let ?key = "\<lambda>ir :: nat \<times> (string \<times> cell) list. CStr (''sql-'' @ str_nat (Suc (fst ir)))"
  let ?val = "\<lambda>(ir :: nat \<times> (string \<times> cell) list) n.
     \<lparr>c_type = ''sql'', c_row_index = Suc (fst ir), c_row_data = to_dict (snd ir),
      c_citation_number = n\<rparr>"
  have f: "\<And>ir cm c. add_sql ir (cm, c) = (AList.update (?key ir) (?val ir c) cm, c + 1)"
    by (simp add: add_sql_def split_def)
  have "distinct (map fst irs)" using assms by simp
  then have d: "distinct (map ?key irs)"
    using distinct_map [of "\<lambda>i. CStr (''sql-'' @ str_nat (Suc i))" "map fst irs"]
      sql_key_inj [of "set (map fst irs)"]
    by (simp add: comp_def)
  have e: "?key ` set irs \<inter> fst ` set ([] :: (cell \<times> cite) list) = {}" by simp
  from fold_insert_fresh [of add_sql ?key ?val irs "[]" 1, OF f d e] show ?thesis
    by simp
qed

lemma fold_add_semantic:
  assumes idx: "map fst irs = [0..<length irs]"
    and cid: "\<forall>ir\<in>set irs. map_of (snd ir) ''citation_id'' = Some (CStr (''sem-'' @ str_nat (Suc (fst ir))))"
    and cm: "\<forall>k\<in>fst ` set cm. \<exists>i. k = CStr (''sql-'' @ str_nat i)"
  shows "fold add_semantic irs (cm, c)
     = (cm @ map (\<lambda>(ir, n). (CStr (''sem-'' @ str_nat (Suc (fst ir))),
                       \<lparr>c_type = ''semantic'', c_row_index = Suc (fst ir), c_row_data = to_dict (snd ir),
                        c_citation_number = n\<rparr>)) (zip irs [c..<c + length irs]),
        c + length irs)"
proof -
  let ?key = "\<lambda>ir :: nat \<times> (string \<times> cell) list.
     case map_of (snd ir) ''citation_id'' of Some cid \<Rightarrow> cid
     | None \<Rightarrow> CStr (''sem-'' @ str_nat (fst ir + 1))"
  let ?key' = "\<lambda>ir :: nat \<times> (string \<times> cell) list. CStr (''sem-'' @ str_nat (Suc (fst ir)))"
  let ?val = "\<lambda>(ir :: nat \<times> (string \<times> cell) list) n.
     \<lparr>c_type = ''semantic'', c_row_index = Suc (fst ir), c_row_data = to_dict (snd ir),
      c_citation_number = n\<rparr>"
  have f: "\<And>ir cm c. add_semantic ir (cm, c) = (AList.update (?key ir) (?val ir c) cm, c + 1)"
    by (simp add: add_semantic_def split_def split: option.splits)
  have k: "\<And>ir. ir \<in> set irs \<Longrightarrow> ?key ir = ?key' ir"
    using cid by simp
  then have mk: "map ?key irs = map ?key' irs"
    by (intro map_cong) simp_all
  have "distinct (map fst irs)" using idx by simp
  then have "distinct (map ?key' irs)"
    using distinct_map [of "\<lambda>i. CStr (''sem-'' @ str_nat (Suc i))" "map fst irs"]
      sem_key_inj [of "set (map fst irs)"]
    by (simp add: comp_def)
  then have d: "distinct (map ?key irs)" by (simp only: mk)
  have e: "?key ` set irs \<inter> fst ` set cm = {}"
  proof (rule ccontr)
    assume "?key ` set irs \<inter> fst ` set cm \<noteq> {}"
    then obtain ir where ir: "ir \<in> set irs" and "?key ir \<in> fst ` set cm" by auto
    with cm obtain i where "?key ir = CStr (''sql-'' @ str_nat i)" by blast
    with k [OF ir] show False by simp
  qed
  have m: "map (\<lambda>(ir, n). (?key ir, ?val ir n)) (zip irs [c..<c + length irs])
         = map (\<lambda>(ir, n). (?key' ir, ?val ir n)) (zip irs [c..<c + length irs])"
  proof (rule map_cong [OF refl])
    fix x assume x: "x \<in> set (zip irs [c..<c + length irs])"
    have "fst x \<in> set irs"
      using x set_zip_leftD [of "fst x" "snd x" irs] by simp
    from k [OF this] show "(case x of (ir, n) \<Rightarrow> (?key ir, ?val ir n))
        = (case x of (ir, n) \<Rightarrow> (?key' ir, ?val ir n))"
      by (cases x) (simp split: option.splits)
  qed
  from fold_insert_fresh [of add_semantic ?key ?val irs cm c, OF f d e] show ?thesis
    by (simp only: m)
qed

lemma citation_list_explicit:
  assumes i1: "map fst irs1 = [0..<length irs1]"
    and i2: "map fst irs2 = [0..<length irs2]"
    and cid: "\<forall>ir\<in>set irs2. map_of (snd ir) ''citation_id'' = Some (CStr (''sem-'' @ str_nat (Suc (fst ir))))"
  shows "citation_list (fst (fold add_semantic irs2 (fold add_sql irs1 ([], 1))))
     = map (\<lambda>(ir, n). \<lparr>citation_id = CStr (''sql-'' @ str_nat (Suc (fst ir))), ctype = ''sql'',
                        row_index = Suc (fst ir), citation_number = n,
                        row_data = map (\<lambda>(k, v). (k, py_str v)) (to_dict (snd ir))\<rparr>)
           (zip irs1 [1..<1 + length irs1])
       @ map (\<lambda>(ir, n). \<lparr>citation_id = CStr (''sem-'' @ str_nat (Suc (fst ir))), ctype = ''semantic'',
                        row_index = Suc (fst ir), citation_number = n,
                        row_data = map (\<lambda>(k, v). (k, py_str v)) (to_dict (snd ir))\<rparr>)
           (zip irs2 [1 + length irs1..<1 + length irs1 + length irs2])"
proof -
  let ?cm = "map (\<lambda>(ir, n). (CStr (''sql-'' @ str_nat (Suc (fst ir))),
                       \<lparr>c_type = ''sql'', c_row_index = Suc (fst ir), c_row_data = to_dict (snd ir),
                        c_citation_number = n\<rparr>)) (zip irs1 [1..<1 + length irs1])"
  have cm: "\<forall>k\<in>fst ` set ?cm. \<exists>i. k = CStr (''sql-'' @ str_nat i)"
    by auto
  show ?thesis
    by (simp only: fold_add_sql [OF i1] fold_add_semantic [OF i2 cid cm])
       (simp add: citation_list_def split_def comp_def)
qed

lemma zip_map_fst: "length ns = length irs \<Longrightarrow> map (\<lambda>x. h (fst x)) (zip irs ns) = map h irs"
  by (induction ns irs rule: list_induct2) auto

lemma zip_map_snd: "length ns = length irs \<Longrightarrow> map (\<lambda>x. g (snd x)) (zip irs ns) = map g ns"
  by (induction ns irs rule: list_induct2) auto

lemma rows_of_sql:
  assumes "rs = None \<or> rs = sql_results (snd (sql_node env st))"
  shows "map fst (rows_of rs) = [0..<length (rows_of rs)]"
proof (cases rs)
  case None
  then show ?thesis by (simp add: rows_of_def)
next
  case (Some f)
  with assms have "index f = [0..<length (data f)]"
    using sql_frame_index [of env st f] by simp
  then have "map fst (iterrows f) = [0..<length (iterrows f)]"
    by (simp add: iterrows_def)
  with Some show ?thesis by (simp add: rows_of_def)
qed

lemma rows_of_semantic:
  assumes "rm = None \<or> rm = semantic_results (snd (semantic_node env st))"
  shows "map fst (rows_of rm) = [0..<length (rows_of rm)] \<and>
     (\<forall>ir\<in>set (rows_of rm).
        map_of (snd ir) ''citation_id'' = Some (CStr (''sem-'' @ str_nat (Suc (fst ir)))))"
proof (cases rm)
  case None
  then show ?thesis by (simp add: rows_of_def)
next
  case (Some f)
  with assms have "semantic_results (snd (semantic_node env st)) = Some f"
    by simp
  from sem_frame_rows [OF this] Some show ?thesis
    by (simp add: rows_of_def)
qed

text \<open>
  C5. Let the structured result set be absent or the one \<open>sql_node\<close> stores, and the
  semantic result set be absent or the one \<open>semantic_node\<close> stores, with \<open>n\<close> and
  \<open>m\<close> records. The citation list then carries the citation numbers \<open>1, ..., n + m\<close>
  in order; its ids are \<open>sql-1, ..., sql-n\<close> followed by \<open>sem-1, ..., sem-m\<close>, all
  distinct; and its records are the structured records in their order followed by the
  semantic records in their order, one entry for each.
\<close>

theorem citation_table_sequential:
  assumes "rs = None \<or> rs = sql_results (snd (sql_node env st1))"
    and "rm = None \<or> rm = semantic_results (snd (semantic_node env st2))"
  shows "let cl = citation_list (build_citation_map \<lparr>r_sql = rs, r_semantic = rm\<rparr>);
             n = length (rows_of rs); m = length (rows_of rm)
         in map citation_number cl = [1..<Suc (n + m)]
          \<and> map citation_id cl
              = map (\<lambda>i. CStr (''sql-'' @ str_nat (Suc i))) [0..<n]
                @ map (\<lambda>i. CStr (''sem-'' @ str_nat (Suc i))) [0..<m]
          \<and> distinct (map citation_id cl)
          \<and> map row_data cl
              = map (\<lambda>(idx, row). map (\<lambda>(k, v). (k, py_str v)) (to_dict row))
                  (rows_of rs @ rows_of rm)"
proof -
  let ?n = "length (rows_of rs)" and ?m = "length (rows_of rm)"
  let ?cl = "citation_list (build_citation_map \<lparr>r_sql = rs, r_semantic = rm\<rparr>)"
  let ?sql = "\<lambda>i. CStr (''sql-'' @ str_nat (Suc i))"
  let ?sem = "\<lambda>i. CStr (''sem-'' @ str_nat (Suc i))"
  note i1 = rows_of_sql [OF assms(1)]
  note i2 = rows_of_semantic [OF assms(2), THEN conjunct1]
  note cid = rows_of_semantic [OF assms(2), THEN conjunct2]
  note cl = citation_list_explicit [OF i1 i2 cid]
  have l1: "length [1..<1 + ?n] = length (rows_of rs)" by (simp only: length_upt)
  have l2: "length [1 + ?n..<1 + ?n + ?m] = length (rows_of rm)" by (simp only: length_upt)
  have num: "map citation_number ?cl = [1..<Suc (?n + ?m)]"
  proof -
    have "map citation_number ?cl = [1..<1 + ?n] @ [1 + ?n..<1 + ?n + ?m]"
      unfolding build_citation_map_fold cl
      using zip_map_snd [OF l1, of "\<lambda>n. n"] zip_map_snd [OF l2, of "\<lambda>n. n"]
      by (simp add: comp_def split_def del: upt_Suc)
    also have "\<dots> = [1..<Suc (?n + ?m)]"
      using upt_add_eq_append [of 1 "1 + ?n" ?m] by simp
    finally show ?thesis .
  qed
  have ids: "map citation_id ?cl = map ?sql [0..<?n] @ map ?sem [0..<?m]"
  proof -
    have "map citation_id ?cl = map ?sql (map fst (rows_of rs)) @ map ?sem (map fst (rows_of rm))"
      unfolding build_citation_map_fold cl
      using zip_map_fst [OF l1, of "\<lambda>ir. ?sql (fst ir)"] zip_map_fst [OF l2, of "\<lambda>ir. ?sem (fst ir)"]
      by (simp add: comp_def split_def del: upt_Suc)
    then show ?thesis using i1 i2 by simp
  qed
  have dist: "distinct (map citation_id ?cl)"
  proof -
    have a: "distinct (map ?sql [0..<?n])"
      by (simp only: distinct_map distinct_upt sql_key_inj simp_thms)
    have b: "distinct (map ?sem [0..<?m])"
      by (simp only: distinct_map distinct_upt sem_key_inj simp_thms)
    have c: "set (map ?sql [0..<?n]) \<inter> set (map ?sem [0..<?m]) = {}"
      by auto
    from a b c show ?thesis
      by (simp only: ids distinct_append simp_thms)
  qed
  have rows: "map row_data ?cl
      = map (\<lambda>(idx, row). map (\<lambda>(k, v). (k, py_str v)) (to_dict row)) (rows_of rs @ rows_of rm)"
    unfolding build_citation_map_fold cl
    using zip_map_fst [OF l1, of "\<lambda>ir. map (\<lambda>(k, v). (k, py_str v)) (to_dict (snd ir))"]
      zip_map_fst [OF l2, of "\<lambda>ir. map (\<lambda>(k, v). (k, py_str v)) (to_dict (snd ir))"]
    by (simp add: comp_def split_def del: upt_Suc)
  from num ids dist rows show ?thesis
    by (simp only: Let_def)
qed

theorem citation_table_sequential_witness:
  "map citation_number
     (citation_list (build_citation_map
        \<lparr>r_sql = sql_results (snd (sql_node env_five_rows (initial_state ''list products'' True 6))),
         r_semantic = semantic_results (snd (semantic_node env_five_rows (initial_state ''list products'' True 6)))\<rparr>))
     = [1, 2, 3, 4, 5, 6, 7]
   \<and> distinct (map citation_id
     (citation_list (build_citation_map
        \<lparr>r_sql = sql_results (snd (sql_node env_five_rows (initial_state ''list products'' True 6))),
         r_semantic = semantic_results (snd (semantic_node env_five_rows (initial_state ''list products'' True 6)))\<rparr>)))"
proof -
  let ?s = "initial_state ''list products'' True 6"
  let ?rs = "sql_results (snd (sql_node env_five_rows ?s))"
  let ?rm = "semantic_results (snd (semantic_node env_five_rows ?s))"
  have n: "length (rows_of ?rs) = 5" by code_simp
  have m: "length (rows_of ?rm) = 2" by code_simp
  have u: "[1..<Suc (5 + 2)] = [1, 2, 3, 4, 5, 6, 7]" by code_simp
  have "?rs = None \<or> ?rs = sql_results (snd (sql_node env_five_rows ?s))"
    and "?rm = None \<or> ?rm = semantic_results (snd (semantic_node env_five_rows ?s))"
    by simp_all
  from citation_table_sequential [OF this]
  have "map citation_number (citation_list (build_citation_map \<lparr>r_sql = ?rs, r_semantic = ?rm\<rparr>))
          = [1..<Suc (length (rows_of ?rs) + length (rows_of ?rm))]
      \<and> distinct (map citation_id (citation_list (build_citation_map \<lparr>r_sql = ?rs, r_semantic = ?rm\<rparr>)))"
    unfolding Let_def by blast
  then show ?thesis
    by (simp only: n m u)
qed


section \<open>Routing and the result cap\<close>





text \<open>
  C10. A negative cap is not clamped: with \<open>limit_results = -2\<close> and five rows from
  the store, \<open>df.head(-2)\<close> keeps the rows 1 to 3, cited \<open>sql-1\<close> to \<open>sql-3\<close>.
  For a cap \<open>c \<ge> 0\<close> the retained rows are the first \<open>min(n, c)\<close>, cited
  \<open>sql-1, ...\<close> in order (lemma \<open>sql_node_keeps_first_rows\<close>).
\<close>

theorem negative_cap_keeps_rows:
  "limit_results (initial_state ''list products'' True (- 2)) = - 2
   \<and> map_option data
       (sql_results (snd (sql_node env_five_rows (initial_state ''list products'' True (- 2)))))
     = Some [[CStr ''sql-1'', CStr ''a''], [CStr ''sql-2'', CStr ''b''], [CStr ''sql-3'', CStr ''c'']]"
  by code_simp

lemma sql_node_keeps_first_rows:
  assumes "sql_agent env (user_question st) (intent_analysis st) = (ev, Inr query)"
    and "db_execute env query = Inr (Some cols, rows)"
    and "list_all (\<lambda>row. length row = length cols) rows"
    and "\<not> List.member cols ''citation_id''"
    and "0 \<le> limit_results st"
  shows "sql_results (snd (sql_node env st))
     = Some \<lparr>columns = ''citation_id'' # cols,
             index = [0..<min (length rows) (nat (limit_results st))],
             data = map2 (#) (sql_citation_ids (min (length rows) (nat (limit_results st))))
                      (take (min (length rows) (nat (limit_results st)))
                         (store_cells (stored_cell env) rows))\<rparr>"
proof (cases "limit_results st < int (length rows)")
  case True
  then have lt: "nat (limit_results st) < length rows"
    using assms(5) by linarith
  then have m: "min (length rows) (nat (limit_results st)) = nat (limit_results st)"
    and m': "min (nat (limit_results st)) (length rows) = nat (limit_results st)"
    by simp_all
  from True assms lt show ?thesis
    by (simp add: sql_node_def DataFrame_def head_def insert_column_def len_def Let_def m m'
          take_upt_min length_store_cells)
next
  case False
  then have m: "min (length rows) (nat (limit_results st)) = length rows"
    by simp
  from False assms show ?thesis
    by (simp add: sql_node_def DataFrame_def insert_column_def len_def Let_def m
          length_store_cells)
qed

end
